theory Spec2Isabelle
  imports Main "HOL-Library.AList"
begin

section \<open>Python values, exceptions and the file system\<close>

text \<open>
  The values that travel through a manifest. A JSON document decodes to such a value, and
  the fields \<open>player\<close>, \<open>player_name\<close> and \<open>server\<close> of a container hold whatever
  the manifest gave them: Python does not check the annotations. Integers are unbounded.
  Floating point numbers are left out, as is the interpreter's optional limit on the
  length of a decimal conversion.
\<close>

datatype pyval =
    PNone
  | PBool bool
  | PInt int
  | PStr string
  | PList "pyval list"
  | PTuple "pyval list"
  | PDict "(string \<times> pyval) list"

type_synonym bytes = "char list"
type_synonym manifest = "(string \<times> pyval) list"

text \<open>
  An exception is its class and \<open>args[0]\<close> when that is a string (\<open>None\<close> when the
  exception has no argument or a first argument that is not text): this is all that
  \<open>read\<close> inspects when it wraps an exception.
\<close>

datatype exn_class =
    FileNotFoundError
  | InvalidDataError
  | Exception
  | KeyError
  | TypeError
  | AttributeError
  | NotImplementedError
  | BadZipFile
  | OSError
  | IsADirectoryError
  | PermissionError
  | OtherError string

datatype error = Raised exn_class "string option"

text \<open>Python's decimal rendering of an integer, as an f-string produces it.\<close>

fun str_nat :: "nat \<Rightarrow> string" where
  "str_nat n =
     (if n < 10 then [''0123456789'' ! n]
      else str_nat (n div 10) @ [''0123456789'' ! (n mod 10)])"

declare str_nat.simps [simp del]

definition str_int :: "int \<Rightarrow> string" where
  "str_int i = (if i < 0 then CHR ''-'' # str_nat (nat (- i)) else str_nat (nat i))"

text \<open>
  An archive is the list of its entries in the order they were written; a name written
  twice is read back as the later entry. \<open>zcompress\<close> is the entry's compression method.
\<close>

definition ZIP_STORED :: int where "ZIP_STORED = 0"
definition ZIP_DEFLATED :: int where "ZIP_DEFLATED = 8"

record zentry =
  zname :: string
  zdata :: bytes
  zcompress :: int
  zlevel :: "int option"

datatype fcontent = Archive "zentry list" | Plain bytes

text \<open>
  A binary stream object: its \<open>name\<close> attribute when it has one (an in-memory buffer
  has none) and what it holds.
\<close>

record stream =
  sname :: "string option"
  sdata :: fcontent

text \<open>What \<open>write\<close> and \<open>read\<close> accept as \<open>file\<close>: a path or a stream object.\<close>

datatype file_arg = FPath string | FStream nat

text \<open>
  The state of the process outside the container objects: the files, the stream objects,
  the exception, if any, that opening a path for writing raises (FileNotFoundError for a
  missing directory or an empty path, IsADirectoryError, PermissionError or another
  OSError; its first argument is the error number, not text), and the \<open>source_data\<close>
  attribute that each handler class holds in its own namespace. \<open>gsd_log\<close> is a ghost field: it records every
  call of \<open>get_source_data\<close>, with the class it was called on and whether it returned.
\<close>

record world =
  files :: "string \<rightharpoonup> fcontent"
  streams :: "nat \<Rightarrow> stream"
  write_error :: "string \<Rightarrow> exn_class option"
  source_data :: "string \<rightharpoonup> bytes"
  gsd_log :: "(string \<times> bool) list"

text \<open>
  The collaborators that the module calls and does not define: the JSON codec, the
  binary diff, the byte image of an archive, the interpreter's rendering of a mapping,
  the base classes of each handler class in method resolution order (the class itself
  excluded), and the \<open>get_source_data\<close> that each concrete handler class supplies.
\<close>

record externals =
  json_dumps :: "manifest \<Rightarrow> string option"
  json_load :: "bytes \<Rightarrow> error + pyval"
  bsdiff4_diff :: "bytes \<Rightarrow> bytes \<Rightarrow> bytes"
  bsdiff4_patch :: "bytes \<Rightarrow> bytes option \<Rightarrow> error + bytes"
  zip_bytes :: "zentry list \<Rightarrow> bytes"
  repr_manifest :: "manifest \<Rightarrow> string"
  ancestors :: "string \<Rightarrow> string list"
  get_source_data :: "string \<Rightarrow> world \<Rightarrow> error + bytes"

section \<open>The write limiter\<close>

text \<open>
  \<open>semaphore = threading.Semaphore(os.cpu_count() or 4)\<close>: \<open>os.cpu_count()\<close> is the
  number of processing units, or \<open>None\<close> when it cannot be determined; \<open>or\<close> takes its
  right operand when the left one is \<open>None\<close> or zero.
\<close>

definition semaphore :: "nat option \<Rightarrow> nat" where
  "semaphore cpu_count =
     (case cpu_count of None \<Rightarrow> 4 | Some n \<Rightarrow> if n = 0 then 4 else n)"

section \<open>Containers\<close>

text \<open>
  The classes of the module whose methods differ: \<open>APContainer\<close>, \<open>APPatch\<close>, a concrete
  subclass of the abstract \<open>APAutoPatchInterface\<close> (which overrides none of the
  methods below) and \<open>APDeltaPatch\<close>. A method call is dispatched on the kind.
\<close>

datatype kind = Container | Patch | AutoPatch | DeltaPatch

text \<open>
  An object, with its attributes as attribute lookup finds them: the instance attributes
  \<open>path\<close>, \<open>player\<close>, \<open>player_name\<close>, \<open>server\<close>, \<open>patched_path\<close>, and the class
  attributes \<open>version\<close>, \<open>game\<close>, \<open>procedure\<close>, \<open>result_file_ending\<close>, \<open>hash\<close> and
  \<open>patch_file_ending\<close>, which a subclass may override. The compression settings are
  kept at the values the module gives them. \<open>cls\<close> is the name of the object's class.
  \<open>hash\<close> is only annotated in \<open>APDeltaPatch\<close>: it is \<open>None\<close> here as long as no
  subclass defines it, and reading it then raises AttributeError.
\<close>

record container =
  cls :: string
  kind :: kind
  version :: int
  game :: "string option"
  procedure :: pyval
  result_file_ending :: string
  hash :: "pyval option"
  patch_file_ending :: string
  path :: "string option"
  player :: pyval
  player_name :: pyval
  server :: pyval
  patched_path :: string
  delta :: "bytes option"

definition container_version :: int where
  "container_version = 6"

text \<open>
  The constructors, with the class attributes at their declared defaults. Attributes
  that a class does not have are never read by its methods; they are filled in with the
  values of the subclass that declares them.
\<close>

definition APContainer_init :: "string option \<Rightarrow> pyval \<Rightarrow> pyval \<Rightarrow> pyval \<Rightarrow> container" where
  "APContainer_init p pl pn sv =
     \<lparr> cls = ''APContainer'', kind = Container, version = container_version,
       game = None, procedure = PStr ''custom'', result_file_ending = ''.sfc'',
       hash = None,
       patch_file_ending = [], path = p, player = pl, player_name = pn, server = sv,
       patched_path = [], delta = None \<rparr>"

definition APPatch_init :: "string option \<Rightarrow> pyval \<Rightarrow> pyval \<Rightarrow> pyval \<Rightarrow> container" where
  "APPatch_init p pl pn sv =
     (APContainer_init p pl pn sv) \<lparr> cls := ''APPatch'', kind := Patch \<rparr>"

definition APDeltaPatch_init ::
    "string \<Rightarrow> string option \<Rightarrow> pyval \<Rightarrow> pyval \<Rightarrow> pyval \<Rightarrow> container" where
  "APDeltaPatch_init pp p pl pn sv =
     (APContainer_init p pl pn sv)
       \<lparr> cls := ''APDeltaPatch'', kind := DeltaPatch, procedure := PNone,
         patched_path := pp \<rparr>"

subsection \<open>The manifest\<close>

definition opt_str :: "string option \<Rightarrow> pyval" where
  "opt_str s = (case s of None \<Rightarrow> PNone | Some t \<Rightarrow> PStr t)"

definition APContainer_get_manifest :: "container \<Rightarrow> manifest" where
  "APContainer_get_manifest obj =
     [(''server'', server obj),
      (''player'', player obj),
      (''player_name'', player_name obj),
      (''game'', opt_str (game obj)),
      (''compatible_version'', PInt 5),
      (''version'', PInt container_version)]"

text \<open>
  Assigning to a key of a dictionary replaces the value of a key that is there and
  appends a new key at the end: \<open>AList.update\<close>.
\<close>

definition APPatch_get_manifest :: "container \<Rightarrow> manifest" where
  "APPatch_get_manifest obj =
     AList.update ''compatible_version'' (PInt 6)
       (AList.update ''procedure'' (procedure obj) (APContainer_get_manifest obj))"

definition quoted :: "string \<Rightarrow> string" where
  "quoted s = [CHR 0x27] @ s @ [CHR 0x27]"

definition APDeltaPatch_get_manifest :: "container \<Rightarrow> error + manifest" where
  "APDeltaPatch_get_manifest obj =
     (case hash obj of
        None \<Rightarrow>
          Inl (Raised AttributeError
                 (Some (quoted (cls obj) @ '' object has no attribute '' @ quoted ''hash'')))
      | Some h \<Rightarrow>
          Inr (AList.update ''compatible_version'' (PInt 5)
                (AList.update ''patch_file_ending'' (PStr (patch_file_ending obj))
                  (AList.update ''result_file_ending'' (PStr (result_file_ending obj))
                    (AList.update ''base_checksum'' h (APPatch_get_manifest obj))))))"

definition get_manifest :: "container \<Rightarrow> error + manifest" where
  "get_manifest obj =
     (case kind obj of
        Container \<Rightarrow> Inr (APContainer_get_manifest obj)
      | Patch \<Rightarrow> Inr (APPatch_get_manifest obj)
      | AutoPatch \<Rightarrow> Inr (APPatch_get_manifest obj)
      | DeltaPatch \<Rightarrow> APDeltaPatch_get_manifest obj)"

text \<open>Subscripting a dictionary: \<open>m[k]\<close> raises KeyError, with the key, when it is absent.\<close>

definition dict_getitem :: "manifest \<Rightarrow> string \<Rightarrow> error + pyval" where
  "dict_getitem m k =
     (case map_of m k of None \<Rightarrow> Inl (Raised KeyError (Some k)) | Some v \<Rightarrow> Inr v)"

text \<open>
  The shape that the annotation of \<open>procedure\<close> describes: the text \<open>custom\<close>, or a list
  of pairs of an operation name and a list of arguments.
\<close>

definition is_procedure_step :: "pyval \<Rightarrow> bool" where
  "is_procedure_step v =
     (case v of PTuple [PStr name, PList args] \<Rightarrow> True | _ \<Rightarrow> False)"

definition is_procedure :: "pyval \<Rightarrow> bool" where
  "is_procedure v =
     (case v of
        PStr s \<Rightarrow> s = ''custom''
      | PList steps \<Rightarrow> list_all is_procedure_step steps
      | _ \<Rightarrow> False)"

section \<open>The archive engine\<close>

text \<open>
  An open archive: \<open>filename\<close> is the path it was opened from, or the \<open>name\<close>
  attribute of the stream (\<open>None\<close> when the stream has none); \<open>compression\<close> and
  \<open>compresslevel\<close> are the defaults for the entries written to it.
\<close>

record zipfile =
  filename :: "string option"
  compression :: int
  compresslevel :: "int option"
  entries :: "zentry list"

definition compression_level :: int where "compression_level = 9"
definition compression_method :: int where "compression_method = ZIP_DEFLATED"

text \<open>
  \<open>zipfile.ZipFile(zip_file, "r")\<close>: a missing path raises FileNotFoundError (whose
  first argument is the error number, not text), a file that is no archive raises
  BadZipFile.
\<close>

definition open_content :: "string option \<Rightarrow> fcontent \<Rightarrow> error + zipfile" where
  "open_content fn c =
     (case c of
        Plain b \<Rightarrow> Inl (Raised BadZipFile (Some ''File is not a zip file''))
      | Archive es \<Rightarrow>
          Inr \<lparr> filename = fn, compression = ZIP_STORED, compresslevel = None,
                entries = es \<rparr>)"

definition zip_open_read :: "world \<Rightarrow> file_arg \<Rightarrow> error + zipfile" where
  "zip_open_read w t =
     (case t of
        FPath p \<Rightarrow>
          (case files w p of
             None \<Rightarrow> Inl (Raised FileNotFoundError None)
           | Some c \<Rightarrow> open_content (Some p) c)
      | FStream i \<Rightarrow> open_content (sname (streams w i)) (sdata (streams w i)))"

text \<open>
  \<open>zipfile.ZipFile(zip_file, "w", self.compression_method, True, self.compression_level)\<close>:
  a path is created or truncated at once, and the open raises the exception of
  \<open>write_error\<close> when the path cannot be written. A stream is taken as it is; it is assumed to stand at its
  start, so that the archive becomes its content when the archive is closed.
\<close>

definition new_archive :: "string option \<Rightarrow> zipfile" where
  "new_archive fn =
     \<lparr> filename = fn, compression = compression_method,
       compresslevel = Some compression_level, entries = [] \<rparr>"

definition zip_open_write :: "world \<Rightarrow> file_arg \<Rightarrow> error + zipfile \<times> world" where
  "zip_open_write w t =
     (case t of
        FPath p \<Rightarrow>
          (case write_error w p of
             None \<Rightarrow> Inr (new_archive (Some p), w\<lparr>files := (files w)(p \<mapsto> Plain [])\<rparr>)
           | Some c \<Rightarrow> Inl (Raised c None))
      | FStream i \<Rightarrow> Inr (new_archive (sname (streams w i)), w))"

text \<open>Leaving the \<open>with\<close> block closes the archive, also when the block raised.\<close>

definition zip_close_write :: "file_arg \<Rightarrow> zipfile \<Rightarrow> world \<Rightarrow> world" where
  "zip_close_write t zf w =
     (case t of
        FPath p \<Rightarrow> w\<lparr>files := (files w)(p \<mapsto> Archive (entries zf))\<rparr>
      | FStream i \<Rightarrow>
          w\<lparr>streams := (streams w)(i := (streams w i)\<lparr>sdata := Archive (entries zf)\<rparr>)\<rparr>)"

text \<open>\<open>writestr(name, data, compress_type=None)\<close> appends an entry.\<close>

definition writestr :: "zipfile \<Rightarrow> string \<Rightarrow> bytes \<Rightarrow> int option \<Rightarrow> zipfile" where
  "writestr zf name data compress_type =
     zf\<lparr>entries := entries zf @
          [\<lparr> zname = name, zdata = data,
             zcompress = (case compress_type of None \<Rightarrow> compression zf | Some c \<Rightarrow> c),
             zlevel = compresslevel zf \<rparr>]\<rparr>"

text \<open>\<open>read(name)\<close> and \<open>open(name, "r")\<close>: the latest entry of that name, or KeyError.\<close>

definition zip_read :: "zipfile \<Rightarrow> string \<Rightarrow> error + bytes" where
  "zip_read zf name =
     (case find (\<lambda>e. zname e = name) (rev (entries zf)) of
        None \<Rightarrow>
          Inl (Raised KeyError
                 (Some (''There is no item named '' @ quoted name @ '' in the archive'')))
      | Some e \<Rightarrow> Inr (zdata e))"

text \<open>\<open>open(p, "rb").read()\<close> and \<open>open(p, "wb")\<close> followed by \<open>write\<close>.\<close>

definition read_file :: "externals \<Rightarrow> world \<Rightarrow> string \<Rightarrow> error + bytes" where
  "read_file X w p =
     (if p = [] then Inl (Raised FileNotFoundError None)
      else case files w p of
             None \<Rightarrow> Inl (Raised FileNotFoundError None)
           | Some (Plain b) \<Rightarrow> Inr b
           | Some (Archive es) \<Rightarrow> Inr (zip_bytes X es))"

definition write_file :: "world \<Rightarrow> string \<Rightarrow> bytes \<Rightarrow> error + world" where
  "write_file w p b =
     (case write_error w p of
        None \<Rightarrow> Inr (w\<lparr>files := (files w)(p \<mapsto> Plain b)\<rparr>)
      | Some c \<Rightarrow> Inl (Raised c None))"

section \<open>The base asset cache\<close>

text \<open>
  \<open>hasattr(cls, "source_data")\<close> and \<open>cls.source_data\<close> look the attribute up in the
  class and then in its base classes, in method resolution order; the first class
  that holds it decides.
\<close>

fun lookup_attr :: "(string \<rightharpoonup> bytes) \<Rightarrow> string list \<Rightarrow> bytes option" where
  "lookup_attr store [] = None"
| "lookup_attr store (c # cs) =
     (case store c of Some b \<Rightarrow> Some b | None \<Rightarrow> lookup_attr store cs)"

definition get_source_data_with_cache ::
    "externals \<Rightarrow> string \<Rightarrow> world \<Rightarrow> (error + bytes) \<times> world" where
  "get_source_data_with_cache X c w =
     (case lookup_attr (source_data w) (c # ancestors X c) of
        Some b \<Rightarrow> (Inr b, w)
      | None \<Rightarrow>
          (case get_source_data X c w of
             Inl e \<Rightarrow> (Inl e, w\<lparr>gsd_log := gsd_log w @ [(c, False)]\<rparr>)
           | Inr b \<Rightarrow>
               (Inr b, w\<lparr>source_data := (source_data w)(c \<mapsto> b),
                          gsd_log := gsd_log w @ [(c, True)]\<rparr>)))"

text \<open>A run of calls, one for each class of the list, whatever each call returns.\<close>

fun cache_calls :: "externals \<Rightarrow> string list \<Rightarrow> world \<Rightarrow> world" where
  "cache_calls X [] w = w"
| "cache_calls X (c # cs) w = cache_calls X cs (snd (get_source_data_with_cache X c w))"

section \<open>Writing\<close>

definition APContainer_write_contents ::
    "externals \<Rightarrow> container \<Rightarrow> zipfile \<Rightarrow> (error + unit) \<times> zipfile" where
  "APContainer_write_contents X obj zf =
     (case get_manifest obj of
        Inl e \<Rightarrow> (Inl e, zf)
      | Inr m \<Rightarrow>
          (case json_dumps X m of
             None \<Rightarrow>
               (Inl (Raised Exception
                       (Some (''Manifest '' @ repr_manifest X m
                              @ '' did not convert to json.''))), zf)
           | Some manifest_str \<Rightarrow>
               (Inr (), writestr zf ''archipelago.json'' manifest_str None)))"

definition APDeltaPatch_write_contents ::
    "externals \<Rightarrow> container \<Rightarrow> zipfile \<Rightarrow> world \<Rightarrow> (error + unit) \<times> zipfile \<times> world" where
  "APDeltaPatch_write_contents X obj zf w =
     (case APContainer_write_contents X obj zf of
        (Inl e, zf1) \<Rightarrow> (Inl e, zf1, w)
      | (Inr u, zf1) \<Rightarrow>
          (case get_source_data_with_cache X (cls obj) w of
             (Inl e, w1) \<Rightarrow> (Inl e, zf1, w1)
           | (Inr base, w1) \<Rightarrow>
               (case read_file X w1 (patched_path obj) of
                  Inl e \<Rightarrow> (Inl e, zf1, w1)
                | Inr target \<Rightarrow>
                    (Inr (),
                     writestr zf1 ''delta.bsdiff4'' (bsdiff4_diff X base target)
                       (Some ZIP_STORED),
                     w1))))"

definition write_contents ::
    "externals \<Rightarrow> container \<Rightarrow> zipfile \<Rightarrow> world \<Rightarrow> (error + unit) \<times> zipfile \<times> world" where
  "write_contents X obj zf w =
     (case kind obj of
        DeltaPatch \<Rightarrow> APDeltaPatch_write_contents X obj zf w
      | _ \<Rightarrow> (case APContainer_write_contents X obj zf of (r, zf1) \<Rightarrow> (r, zf1, w)))"

text \<open>
  \<open>if file\<close>: a path is true when it is not empty, a stream object is true, \<open>None\<close>
  is false. \<open>zip_target\<close> is \<open>file if file else self.path\<close>, with \<open>None\<close> for a
  result that is false.
\<close>

definition truthy_file :: "file_arg option \<Rightarrow> bool" where
  "truthy_file file =
     (case file of None \<Rightarrow> False | Some (FPath p) \<Rightarrow> p \<noteq> [] | Some (FStream i) \<Rightarrow> True)"

definition zip_target :: "container \<Rightarrow> file_arg option \<Rightarrow> file_arg option" where
  "zip_target obj file =
     (if truthy_file file then file
      else case path obj of
             None \<Rightarrow> None
           | Some p \<Rightarrow> if p = [] then None else Some (FPath p))"

text \<open>
  \<open>APContainer.write\<close>, for one thread: the semaphore is acquired before the archive is opened and
  released when the block is left, which leaves its counter as it was.
\<close>

definition APContainer_write ::
    "externals \<Rightarrow> container \<Rightarrow> file_arg option \<Rightarrow> world \<Rightarrow> (error + unit) \<times> container \<times> world" where
  "APContainer_write X obj file w =
     (case zip_target obj file of
        None \<Rightarrow>
          (Inl (Raised FileNotFoundError
                  (Some (''Cannot write '' @ cls obj @ '' due to no path provided.''))),
           obj, w)
      | Some t \<Rightarrow>
          (case zip_open_write w t of
             Inl e \<Rightarrow> (Inl e, obj, w)
           | Inr (zf, w1) \<Rightarrow>
               (let obj1 = (if truthy_file file then obj\<lparr>path := filename zf\<rparr> else obj)
                in case write_contents X obj1 zf w1 of
                     (r, zf1, w2) \<Rightarrow> (r, obj1, zip_close_write t zf1 w2))))"

section \<open>Reading\<close>

text \<open>
  Subscripting a decoded document with a key, and comparing a value with an integer.
  Only a dictionary can be subscripted with a string, and only a number can be compared
  with one; a boolean counts as 0 or 1. The texts of the TypeErrors are those of
  CPython 3.11.
\<close>

definition type_name :: "pyval \<Rightarrow> string" where
  "type_name v =
     (case v of
        PNone \<Rightarrow> ''NoneType'' | PBool b \<Rightarrow> ''bool'' | PInt i \<Rightarrow> ''int'' | PStr s \<Rightarrow> ''str''
      | PList l \<Rightarrow> ''list'' | PTuple l \<Rightarrow> ''tuple'' | PDict d \<Rightarrow> ''dict'')"

definition py_getitem :: "pyval \<Rightarrow> string \<Rightarrow> error + pyval" where
  "py_getitem v k =
     (case v of
        PDict m \<Rightarrow> dict_getitem m k
      | PStr s \<Rightarrow>
          Inl (Raised TypeError (Some (''string indices must be integers, not '' @ quoted ''str'')))
      | PList l \<Rightarrow>
          Inl (Raised TypeError (Some ''list indices must be integers or slices, not str''))
      | PTuple l \<Rightarrow>
          Inl (Raised TypeError (Some ''tuple indices must be integers or slices, not str''))
      | _ \<Rightarrow>
          Inl (Raised TypeError (Some (quoted (type_name v) @ '' object is not subscriptable''))))"

text \<open>The number a value stands for in a comparison, with its rendering in an f-string.\<close>

definition as_number :: "pyval \<Rightarrow> (int \<times> string) option" where
  "as_number v =
     (case v of
        PInt i \<Rightarrow> Some (i, str_int i)
      | PBool b \<Rightarrow> Some (if b then (1, ''True'') else (0, ''False''))
      | _ \<Rightarrow> None)"

definition too_new_message :: "string \<Rightarrow> int \<Rightarrow> string" where
  "too_new_message cv v =
     ''File (version: '' @ cv @ '') too new for this handler (version: '' @ str_int v @ '')''"

definition APContainer_read_contents ::
    "externals \<Rightarrow> container \<Rightarrow> zipfile \<Rightarrow> (error + unit) \<times> container" where
  "APContainer_read_contents X obj zf =
     (case zip_read zf ''archipelago.json'' of
        Inl e \<Rightarrow> (Inl e, obj)
      | Inr f \<Rightarrow>
     (case json_load X f of
        Inl e \<Rightarrow> (Inl e, obj)
      | Inr manifest \<Rightarrow>
     (case py_getitem manifest ''compatible_version'' of
        Inl e \<Rightarrow> (Inl e, obj)
      | Inr cv \<Rightarrow>
     (case as_number cv of
        None \<Rightarrow>
          (Inl (Raised TypeError
                  (Some (quoted ''>'' @ '' not supported between instances of ''
                         @ quoted (type_name cv) @ '' and '' @ quoted ''int''))), obj)
      | Some (n, text) \<Rightarrow>
          if n > version obj
          then (Inl (Raised Exception (Some (too_new_message text (version obj)))), obj)
          else
     (case py_getitem manifest ''player'' of
        Inl e \<Rightarrow> (Inl e, obj)
      | Inr pl \<Rightarrow>
     (case py_getitem manifest ''server'' of
        Inl e \<Rightarrow> (Inl e, obj\<lparr>player := pl\<rparr>)
      | Inr sv \<Rightarrow>
     (case py_getitem manifest ''player_name'' of
        Inl e \<Rightarrow> (Inl e, obj\<lparr>player := pl, server := sv\<rparr>)
      | Inr pn \<Rightarrow>
          (Inr (), obj\<lparr>player := pl, server := sv, player_name := pn\<rparr>))))))))"

definition APDeltaPatch_read_contents ::
    "externals \<Rightarrow> container \<Rightarrow> zipfile \<Rightarrow> (error + unit) \<times> container" where
  "APDeltaPatch_read_contents X obj zf =
     (case APContainer_read_contents X obj zf of
        (Inl e, obj1) \<Rightarrow> (Inl e, obj1)
      | (Inr u, obj1) \<Rightarrow>
          (case zip_read zf ''delta.bsdiff4'' of
             Inl e \<Rightarrow> (Inl e, obj1)
           | Inr d \<Rightarrow> (Inr (), obj1\<lparr>delta := Some d\<rparr>)))"

definition read_contents ::
    "externals \<Rightarrow> container \<Rightarrow> zipfile \<Rightarrow> (error + unit) \<times> container" where
  "read_contents X obj zf =
     (case kind obj of
        DeltaPatch \<Rightarrow> APDeltaPatch_read_contents X obj zf
      | _ \<Rightarrow> APContainer_read_contents X obj zf)"

text \<open>
  What \<open>read\<close> raises in place of an exception of \<open>read_contents\<close>: the text of the
  exception, when it has one, goes in front of the hint.
\<close>

definition invalid_data :: "error \<Rightarrow> error" where
  "invalid_data e =
     (case e of
        Raised c a \<Rightarrow>
          Raised InvalidDataError
            (Some ((case a of None \<Rightarrow> [] | Some arg0 \<Rightarrow> arg0 @ '' - '')
                   @ ''This might be the incorrect world version for this file'')))"

definition APContainer_read ::
    "externals \<Rightarrow> container \<Rightarrow> file_arg option \<Rightarrow> world \<Rightarrow> (error + unit) \<times> container" where
  "APContainer_read X obj file w =
     (case zip_target obj file of
        None \<Rightarrow>
          (Inl (Raised FileNotFoundError
                  (Some (''Cannot read '' @ cls obj @ '' due to no path provided.''))),
           obj)
      | Some t \<Rightarrow>
          (case zip_open_read w t of
             Inl e \<Rightarrow> (Inl e, obj)
           | Inr zf \<Rightarrow>
               (let obj1 = (if truthy_file file then obj\<lparr>path := filename zf\<rparr> else obj)
                in case read_contents X obj1 zf of
                     (Inl e, obj2) \<Rightarrow> (Inl (invalid_data e), obj2)
                   | (Inr u, obj2) \<Rightarrow> (Inr (), obj2))))"

section \<open>Applying a delta patch\<close>

text \<open>
  \<open>not self.delta\<close> holds for \<open>None\<close> and for the empty byte string. The delta is
  handed to \<open>bsdiff4.patch\<close> as it is.
\<close>

definition delta_missing :: "container \<Rightarrow> bool" where
  "delta_missing obj = (case delta obj of None \<Rightarrow> True | Some d \<Rightarrow> d = [])"

text \<open>The last three lines of \<open>patch\<close>: base and delta give the result, written to \<open>target\<close>.\<close>

definition apply_delta ::
    "externals \<Rightarrow> container \<Rightarrow> string \<Rightarrow> world \<Rightarrow> (error + unit) \<times> container \<times> world" where
  "apply_delta X obj target w =
     (case get_source_data_with_cache X (cls obj) w of
        (Inl e, w1) \<Rightarrow> (Inl e, obj, w1)
      | (Inr base, w1) \<Rightarrow>
          (case bsdiff4_patch X base (delta obj) of
             Inl e \<Rightarrow> (Inl e, obj, w1)
           | Inr result \<Rightarrow>
               (case write_file w1 target result of
                  Inl e \<Rightarrow> (Inl e, obj, w1)
                | Inr w2 \<Rightarrow> (Inr (), obj, w2))))"

definition APDeltaPatch_patch ::
    "externals \<Rightarrow> container \<Rightarrow> string \<Rightarrow> world \<Rightarrow> (error + unit) \<times> container \<times> world" where
  "APDeltaPatch_patch X obj target w =
     (case (if delta_missing obj then APContainer_read X obj None w else (Inr (), obj)) of
        (Inl e, obj1) \<Rightarrow> (Inl e, obj1, w)
      | (Inr u, obj1) \<Rightarrow> apply_delta X obj1 target w)"

section \<open>The handler registry\<close>

text \<open>
  The namespace of a class body, as far as the metaclass looks at it: whether it binds
  \<open>game\<close> (of type \<open>Optional[str]\<close>) and whether it binds \<open>patch_file_ending\<close> (a
  string). A class is its name, its bases and that namespace.
\<close>

record class_dct =
  dct_game :: "string option option"
  dct_patch_file_ending :: "string option"

record pyclass =
  cname :: string
  cbases :: "string list"
  cdct :: class_dct

record registry =
  patch_types :: "(string option \<times> pyclass) list"
  file_endings :: "(string \<times> pyclass) list"

definition AutoPatchRegister_new ::
    "registry \<Rightarrow> string \<Rightarrow> string list \<Rightarrow> class_dct \<Rightarrow> (error + pyclass) \<times> registry" where
  "AutoPatchRegister_new reg name bases dct =
     (let new_class = \<lparr> cname = name, cbases = bases, cdct = dct \<rparr>
      in case dct_game dct of
           None \<Rightarrow> (Inr new_class, reg)
         | Some g \<Rightarrow>
             (let reg1 = reg\<lparr>patch_types := AList.update g new_class (patch_types reg)\<rparr>
              in case dct_patch_file_ending dct of
                   None \<Rightarrow> (Inl (Raised KeyError (Some ''patch_file_ending'')), reg1)
                 | Some ending \<Rightarrow>
                     if ending = []
                     then (Inl (Raised Exception
                                  (Some (''Need an expected file ending for '' @ name))), reg1)
                     else (Inr new_class,
                           reg1\<lparr>file_endings :=
                                  AList.update ending new_class (file_endings reg1)\<rparr>)))"

text \<open>
  A process declares its classes one after the other; a declaration that raises leaves
  the registry as the metaclass left it.
\<close>

fun declare_all :: "registry \<Rightarrow> (string \<times> string list \<times> class_dct) list \<Rightarrow> registry" where
  "declare_all reg [] = reg"
| "declare_all reg ((name, bases, dct) # ds) =
     declare_all (snd (AutoPatchRegister_new reg name bases dct)) ds"

definition empty_registry :: registry where
  "empty_registry = \<lparr> patch_types = [], file_endings = [] \<rparr>"

text \<open>The expression \<open>obj.get_manifest()[key]\<close>.\<close>

definition manifest_item :: "container \<Rightarrow> string \<Rightarrow> error + pyval" where
  "manifest_item obj k =
     (case get_manifest obj of Inl e \<Rightarrow> Inl e | Inr m \<Rightarrow> dict_getitem m k)"

section \<open>Sample objects\<close>

text \<open>
  A delta patch class of a game, as a world declares it: it names its game, its base
  checksum and its file ending.
\<close>

definition sample_delta :: container where
  "sample_delta =
     (APDeltaPatch_init ''patched.sfc'' (Some ''out.apsample'') (PInt 1) (PStr ''Alice'')
        (PStr ''localhost:38281''))
       \<lparr> cls := ''SampleDeltaPatch'', game := Some ''Sample'',
         hash := Some (PStr ''0f1e2d''), patch_file_ending := ''.apsample'' \<rparr>"

section \<open>Properties of the registry and of the cache\<close>

text \<open>
  A handler type has a file suffix when its class body binds a \<open>patch_file_ending\<close>
  that is not empty. The invariant of the registry asks this of every type in either
  mapping.
\<close>

definition has_suffix :: "pyclass \<Rightarrow> bool" where
  "has_suffix c =
     (case dct_patch_file_ending (cdct c) of None \<Rightarrow> False | Some ending \<Rightarrow> ending \<noteq> [])"

definition registry_invariant :: "registry \<Rightarrow> bool" where
  "registry_invariant reg =
     (list_all has_suffix (map snd (patch_types reg)) \<and>
      list_all has_suffix (map snd (file_endings reg)))"

text \<open>How often \<open>get_source_data\<close> has returned for a class, by the ghost log.\<close>

definition returned_calls :: "world \<Rightarrow> string \<Rightarrow> nat" where
  "returned_calls w c = length (filter (\<lambda>e. e = (c, True)) (gsd_log w))"

text \<open>
  The invariant behind the bound on the calls: \<open>get_source_data\<close> has returned for a
  class at most once, and only for a class that now holds \<open>source_data\<close> itself.
\<close>

definition cache_inv :: "world \<Rightarrow> bool" where
  "cache_inv w = (\<forall>c. returned_calls w c \<le> (if source_data w c = None then 0 else 1))"

section \<open>What the JSON codec returns\<close>

text \<open>
  The value that \<open>json.load\<close> returns for the text that \<open>json.dumps\<close> made of a value:
  a tuple is written as an array and comes back as a list, at any depth; \<open>None\<close>,
  booleans, integers and strings come back as they are. A manifest comes back with each
  of its values so changed.
\<close>

fun json_value :: "pyval \<Rightarrow> pyval" where
  "json_value (PTuple xs) = PList (map json_value xs)"
| "json_value (PList xs) = PList (map json_value xs)"
| "json_value (PDict kvs) = PDict (map (\<lambda>kv. (fst kv, json_value (snd kv))) kvs)"
| "json_value v = v"

definition json_manifest :: "manifest \<Rightarrow> manifest" where
  "json_manifest m = map (\<lambda>kv. (fst kv, json_value (snd kv))) m"

section \<open>Sample collaborators and a sample world\<close>

text \<open>
  Two handler classes of one game, the second a subclass of the first, each with its
  own base asset; a toy diff that stores the target after a header; and a JSON codec that
  knows four documents, one of them with a tuple.
\<close>

definition sample_container :: container where
  "sample_container =
     APContainer_init (Some ''bound.zip'') (PInt 1) (PStr ''Alice'') (PStr ''localhost:38281'')"

definition sample_pair_container :: container where
  "sample_pair_container =
     APContainer_init (Some ''bound.zip'') (PInt 1) (PTuple [PStr ''Alice'', PStr ''Bob''])
       (PStr ''localhost:38281'')"

definition sample_pair_json :: string where
  \<open>sample_pair_json =
     ''{"server": "localhost:38281", "player": 1, "player_name": ["Alice", "Bob"], "game": null, "compatible_version": 5, "version": 6}''\<close>

definition sample_container_json :: string where
  \<open>sample_container_json =
     ''{"server": "localhost:38281", "player": 1, "player_name": "Alice", "game": null, "compatible_version": 5, "version": 6}''\<close>

definition sample_delta_json :: string where
  \<open>sample_delta_json =
     ''{"server": "localhost:38281", "player": 1, "player_name": "Alice", "game": "Sample", "compatible_version": 5, "version": 6, "procedure": null, "base_checksum": "0f1e2d", "result_file_ending": ".sfc", "patch_file_ending": ".apsample"}''\<close>

definition sample_newer_json :: string where
  \<open>sample_newer_json =
     ''{"server": "", "player": 2, "player_name": "Bob", "game": null, "compatible_version": 7, "version": 7}''\<close>

definition sample_newer_manifest :: manifest where
  "sample_newer_manifest =
     [(''server'', PStr []), (''player'', PInt 2), (''player_name'', PStr ''Bob''),
      (''game'', PNone), (''compatible_version'', PInt 7), (''version'', PInt 7)]"

definition sample_dumps :: "manifest \<Rightarrow> string option" where
  "sample_dumps m =
     (if m = APContainer_get_manifest sample_container then Some sample_container_json
      else if m = APContainer_get_manifest sample_pair_container then Some sample_pair_json
      else if get_manifest sample_delta = Inr m then Some sample_delta_json
      else None)"

definition sample_load :: "bytes \<Rightarrow> error + pyval" where
  "sample_load s =
     (if s = sample_container_json then Inr (PDict (APContainer_get_manifest sample_container))
      else if s = sample_pair_json then
        Inr (PDict (json_manifest (APContainer_get_manifest sample_pair_container)))
      else if s = sample_delta_json then
        (case get_manifest sample_delta of Inl e \<Rightarrow> Inl e | Inr m \<Rightarrow> Inr (PDict m))
      else if s = sample_newer_json then Inr (PDict sample_newer_manifest)
      else Inl (Raised (OtherError ''JSONDecodeError'') (Some ''Expecting value'')))"

definition sample_patch :: "bytes \<Rightarrow> bytes option \<Rightarrow> error + bytes" where
  "sample_patch base d =
     (case d of
        None \<Rightarrow> Inl (Raised TypeError None)
      | Some b \<Rightarrow>
          if take 8 b = ''BSDIFF40'' then Inr (drop 8 b)
          else Inl (Raised (OtherError ''ValueError'') (Some ''invalid header'')))"

definition sample_bases :: "string list" where
  "sample_bases =
     [''APDeltaPatch'', ''APAutoPatchInterface'', ''APPatch'', ''APContainer'', ''ABC'',
      ''object'']"

definition sample_ext :: externals where
  "sample_ext =
     \<lparr> json_dumps = sample_dumps,
       json_load = sample_load,
       bsdiff4_diff = (\<lambda>base target. ''BSDIFF40'' @ target),
       bsdiff4_patch = sample_patch,
       zip_bytes = (\<lambda>es. concat (map zdata es)),
       repr_manifest = (\<lambda>m. ''{...}''),
       ancestors = (\<lambda>c.
         if c = ''PalDeltaPatch'' then ''SampleDeltaPatch'' # sample_bases
         else if c = ''SampleDeltaPatch'' then sample_bases
         else []),
       get_source_data = (\<lambda>c w.
         if c = ''SampleDeltaPatch'' then Inr ''base rom''
         else if c = ''PalDeltaPatch'' then Inr ''pal base rom''
         else Inl (Raised NotImplementedError None)) \<rparr>"

definition sample_world :: world where
  "sample_world =
     \<lparr> files = [''patched.sfc'' \<mapsto> Plain ''patched rom'',
                ''newer.zip'' \<mapsto>
                  Archive [\<lparr> zname = ''archipelago.json'', zdata = sample_newer_json,
                             zcompress = ZIP_DEFLATED, zlevel = Some 9 \<rparr>],
                ''out.apsample'' \<mapsto>
                  Archive [\<lparr> zname = ''archipelago.json'', zdata = sample_delta_json,
                             zcompress = ZIP_DEFLATED, zlevel = Some 9 \<rparr>,
                           \<lparr> zname = ''delta.bsdiff4'', zdata = ''BSDIFF40patched rom'',
                             zcompress = ZIP_STORED, zlevel = Some 9 \<rparr>]],
       streams = (\<lambda>i. \<lparr> sname = None, sdata = Plain [] \<rparr>),
       write_error = (\<lambda>p. if p = [] then Some FileNotFoundError else None),
       source_data = Map.empty,
       gsd_log = [] \<rparr>"

section \<open>The capacity of the write limiter\<close>

text \<open>
  C9, as the code has it. The capacity is the number of processing units whenever that
  number is known and not zero, also when it is 1, 2 or 3; it is 4 only when the number
  is unknown or zero. The 4 is a fallback and not a lower bound.
\<close>

theorem semaphore_capacity:
  "semaphore (Some (Suc n)) = Suc n \<and> semaphore (Some 0) = 4 \<and> semaphore None = 4"
  by (simp add: semaphore_def)

text \<open>C9 as stated fails on a machine with two processing units: the capacity is 2.\<close>

theorem semaphore_minimum_counterexample:
  "semaphore (Some 2) = 2 \<and> \<not> 4 \<le> semaphore (Some 2)"
  by (simp add: semaphore_def)

section \<open>The manifest of each kind\<close>

lemma container_manifest_items:
  "dict_getitem (APContainer_get_manifest obj) ''compatible_version'' = Inr (PInt 5)"
  by (simp add: dict_getitem_def APContainer_get_manifest_def)

lemma patch_manifest_items:
  "dict_getitem (APPatch_get_manifest obj) ''compatible_version'' = Inr (PInt 6)"
  "dict_getitem (APPatch_get_manifest obj) ''procedure'' = Inr (procedure obj)"
  by (simp_all add: dict_getitem_def APPatch_get_manifest_def APContainer_get_manifest_def)

lemma delta_manifest_items:
  assumes "hash obj = Some h"
  shows "APDeltaPatch_get_manifest obj = Inr m \<Longrightarrow>
           dict_getitem m ''compatible_version'' = Inr (PInt 5) \<and>
           dict_getitem m ''procedure'' = Inr (procedure obj)"
    and "\<exists>m. APDeltaPatch_get_manifest obj = Inr m"
  using assms
  by (auto simp add: dict_getitem_def APDeltaPatch_get_manifest_def APPatch_get_manifest_def
        APContainer_get_manifest_def)

text \<open>
  C4, as the code has it. The manifest of a Patch and of an AutoApplyPatch declares
  compatible version 6, the manifest of a plain Container declares 5, and the manifest
  of a DeltaPatch declares 5 as well: \<open>APDeltaPatch.get_manifest\<close> sets the entry back
  to 5 after the one of \<open>APPatch\<close> has set it to 6.
\<close>

theorem compatible_version_by_kind:
  "(kind p = Patch \<or> kind p = AutoPatch \<longrightarrow>
      manifest_item p ''compatible_version'' = Inr (PInt 6)) \<and>
   (kind c = Container \<longrightarrow> manifest_item c ''compatible_version'' = Inr (PInt 5)) \<and>
   (kind d = DeltaPatch \<and> hash d \<noteq> None \<longrightarrow>
      manifest_item d ''compatible_version'' = Inr (PInt 5))"
proof (intro conjI impI)
  assume "kind p = Patch \<or> kind p = AutoPatch"
  then show "manifest_item p ''compatible_version'' = Inr (PInt 6)"
    by (auto simp add: manifest_item_def get_manifest_def patch_manifest_items)
next
  assume "kind c = Container"
  then show "manifest_item c ''compatible_version'' = Inr (PInt 5)"
    by (simp add: manifest_item_def get_manifest_def container_manifest_items)
next
  assume d: "kind d = DeltaPatch \<and> hash d \<noteq> None"
  then obtain h where h: "hash d = Some h" by auto
  from delta_manifest_items(2) [OF h] obtain m where m: "APDeltaPatch_get_manifest d = Inr m" ..
  from delta_manifest_items(1) [OF h m] d m
  show "manifest_item d ''compatible_version'' = Inr (PInt 5)"
    by (simp add: manifest_item_def get_manifest_def)
qed

theorem compatible_version_by_kind_witness:
  "kind (APPatch_init None PNone (PStr []) (PStr [])) = Patch \<and>
   manifest_item (APPatch_init None PNone (PStr []) (PStr [])) ''compatible_version''
     = Inr (PInt 6) \<and>
   kind (APContainer_init None PNone (PStr []) (PStr [])) = Container \<and>
   manifest_item (APContainer_init None PNone (PStr []) (PStr [])) ''compatible_version''
     = Inr (PInt 5) \<and>
   kind sample_delta = DeltaPatch \<and> hash sample_delta \<noteq> None \<and>
   manifest_item sample_delta ''compatible_version'' = Inr (PInt 5)"
  using compatible_version_by_kind
    [of "APPatch_init None PNone (PStr []) (PStr [])"
        "APContainer_init None PNone (PStr []) (PStr [])" sample_delta]
  by (simp add: APPatch_init_def APContainer_init_def APDeltaPatch_init_def sample_delta_def)

text \<open>
  C4 as stated fails for a delta patch: the manifest of the sample delta patch, an
  instance of a subclass of Patch, declares compatible version 5 and not 6.
\<close>

theorem delta_compatible_version_counterexample:
  "manifest_item sample_delta ''compatible_version'' = Inr (PInt 5) \<and>
   manifest_item sample_delta ''compatible_version'' \<noteq> Inr (PInt 6)"
  by (simp add: manifest_item_def get_manifest_def sample_delta_def APDeltaPatch_init_def
        APContainer_init_def APDeltaPatch_get_manifest_def APPatch_get_manifest_def
        APContainer_get_manifest_def dict_getitem_def)

text \<open>
  C5, as the code has it. The manifest of every patch kind has a \<open>procedure\<close> entry, and
  its value is the \<open>procedure\<close> attribute of the object's class. \<open>APPatch\<close> declares
  the attribute as \<open>custom\<close>, and the manifest of a Patch or AutoApplyPatch then carries
  that marker; \<open>APDeltaPatch\<close> overrides the attribute with \<open>None\<close>, which is neither
  the marker nor a list of steps, and the manifest of a DeltaPatch carries \<open>None\<close>.
\<close>

theorem procedure_in_manifest:
  "(kind p = Patch \<or> kind p = AutoPatch \<or> (kind p = DeltaPatch \<and> hash p \<noteq> None) \<longrightarrow>
      manifest_item p ''procedure'' = Inr (procedure p)) \<and>
   procedure (APPatch_init pa pl pn sv) = PStr ''custom'' \<and>
   is_procedure (PStr ''custom'') \<and>
   procedure (APDeltaPatch_init pp pa pl pn sv) = PNone \<and>
   \<not> is_procedure PNone"
proof (intro conjI impI)
  assume k: "kind p = Patch \<or> kind p = AutoPatch \<or> (kind p = DeltaPatch \<and> hash p \<noteq> None)"
  show "manifest_item p ''procedure'' = Inr (procedure p)"
  proof (cases "kind p = DeltaPatch")
    case True
    with k obtain h where h: "hash p = Some h" by auto
    from delta_manifest_items(2) [OF h] obtain m where m: "APDeltaPatch_get_manifest p = Inr m" ..
    from delta_manifest_items(1) [OF h m] True m show ?thesis
      by (simp add: manifest_item_def get_manifest_def)
  next
    case False
    with k show ?thesis
      by (auto simp add: manifest_item_def get_manifest_def patch_manifest_items)
  qed
qed (simp_all add: APPatch_init_def APContainer_init_def APDeltaPatch_init_def is_procedure_def)

theorem procedure_in_manifest_witness:
  "kind (APPatch_init None PNone (PStr []) (PStr [])) = Patch \<and>
   manifest_item (APPatch_init None PNone (PStr []) (PStr [])) ''procedure''
     = Inr (PStr ''custom'')"
  using procedure_in_manifest
    [of "APPatch_init None PNone (PStr []) (PStr [])" None PNone "PStr []" "PStr []"]
  by (simp add: APPatch_init_def APContainer_init_def)

text \<open>
  C5 as stated fails for a delta patch: the \<open>procedure\<close> entry of the sample delta
  patch's manifest is \<open>None\<close>, neither the marker nor a list of steps.
\<close>

theorem delta_procedure_counterexample:
  "manifest_item sample_delta ''procedure'' = Inr PNone \<and> \<not> is_procedure PNone"
  by (simp add: manifest_item_def get_manifest_def sample_delta_def APDeltaPatch_init_def
        APContainer_init_def APDeltaPatch_get_manifest_def APPatch_get_manifest_def
        APContainer_get_manifest_def dict_getitem_def is_procedure_def)



section \<open>The registry after a failed declaration\<close>

text \<open>
  The mapping from file suffixes never holds a type without a suffix: a type enters it
  only after the check.
\<close>

lemma file_endings_step:
  assumes "list_all has_suffix (map snd (file_endings reg))"
  shows "list_all has_suffix (map snd (file_endings (snd (AutoPatchRegister_new reg name bases dct))))"
proof -
  have upd: "list_all has_suffix (map snd (AList.update k c kcs))"
    if "has_suffix c" "list_all has_suffix (map snd kcs)" for k c and kcs :: "(string \<times> pyclass) list"
    using that by (induction kcs) auto
  show ?thesis
    using assms
    by (auto simp add: AutoPatchRegister_new_def Let_def has_suffix_def intro!: upd
          split: option.splits)
qed

lemma file_endings_nonempty:
  "list_all has_suffix (map snd (file_endings reg)) \<Longrightarrow>
   list_all has_suffix (map snd (file_endings (declare_all reg ds)))"
  by (induction reg ds rule: declare_all.induct) (simp_all add: file_endings_step)

text \<open>
  C7 at a failing input. Declaring the class \<open>BadPatch\<close>, whose body binds \<open>game\<close> and
  an empty \<open>patch_file_ending\<close>, raises the exception that asks for a file ending; but
  the metaclass has entered the class under its game before the check, so the registry
  is left holding a type whose declaration failed and which has no suffix.
\<close>

theorem empty_suffix_stays_registered:
  "AutoPatchRegister_new empty_registry ''BadPatch'' [''APDeltaPatch'']
     \<lparr> dct_game = Some (Some ''Bad Game''), dct_patch_file_ending = Some [] \<rparr>
   = (Inl (Raised Exception (Some ''Need an expected file ending for BadPatch'')),
      \<lparr> patch_types =
          [(Some ''Bad Game'',
            \<lparr> cname = ''BadPatch'', cbases = [''APDeltaPatch''],
              cdct = \<lparr> dct_game = Some (Some ''Bad Game''),
                       dct_patch_file_ending = Some [] \<rparr> \<rparr>)],
        file_endings = [] \<rparr>) \<and>
   \<not> registry_invariant
       (snd (AutoPatchRegister_new empty_registry ''BadPatch'' [''APDeltaPatch'']
          \<lparr> dct_game = Some (Some ''Bad Game''), dct_patch_file_ending = Some [] \<rparr>))"
  by (simp add: AutoPatchRegister_new_def empty_registry_def registry_invariant_def
        has_suffix_def)

section \<open>The cache of the base asset\<close>

lemma lookup_attr_own: "store c = Some b \<Longrightarrow> lookup_attr store (c # cs) = Some b"
  by simp

lemma cache_second_call:
  assumes "get_source_data_with_cache X c w = (Inr b, w1)"
  shows "get_source_data_with_cache X c w1 = (Inr b, w1)"
  using assms
  by (auto simp add: get_source_data_with_cache_def split: option.splits sum.splits)

lemma cache_inherited:
  assumes "source_data w c = None" "lookup_attr (source_data w) (ancestors X c) = Some b"
  shows "get_source_data_with_cache X c w = (Inr b, w)"
  using assms by (simp add: get_source_data_with_cache_def)


lemma cache_inv_step:
  assumes "cache_inv w"
  shows "cache_inv (snd (get_source_data_with_cache X c w))"
proof (cases "lookup_attr (source_data w) (c # ancestors X c)")
  case (Some b)
  then show ?thesis using assms by (simp add: get_source_data_with_cache_def)
next
  case None
  then have own: "source_data w c = None" by (simp split: option.splits)
  have old: "returned_calls w d \<le> (if source_data w d = None then 0 else 1)" for d
    using assms unfolding cache_inv_def by blast
  from old [of c] own have zero: "returned_calls w c = 0" by simp
  show ?thesis
  proof (cases "get_source_data X c w")
    case (Inl e)
    then show ?thesis using assms None
      by (simp add: get_source_data_with_cache_def cache_inv_def returned_calls_def)
  next
    case (Inr b)
    let ?w' = "w\<lparr>source_data := (source_data w)(c \<mapsto> b),
                  gsd_log := gsd_log w @ [(c, True)]\<rparr>"
    from Inr None have res: "snd (get_source_data_with_cache X c w) = ?w'"
      by (simp add: get_source_data_with_cache_def)
    have "returned_calls ?w' d \<le> (if source_data ?w' d = None then 0 else 1)" for d
    proof (cases "d = c")
      case True
      with zero show ?thesis by (simp add: returned_calls_def)
    next
      case False
      with old [of d] show ?thesis by (simp add: returned_calls_def)
    qed
    with res show ?thesis by (simp add: cache_inv_def)
  qed
qed

lemma cache_inv_calls: "cache_inv w \<Longrightarrow> cache_inv (cache_calls X cs w)"
  by (induction cs arbitrary: w) (simp_all add: cache_inv_step)

lemma own_entry_step:
  assumes "source_data w c = Some b"
  shows "source_data (snd (get_source_data_with_cache X d w)) c = Some b"
  using assms
  by (auto simp add: get_source_data_with_cache_def split: option.splits sum.splits)

lemma own_entry_calls:
  "source_data w c = Some b \<Longrightarrow> source_data (cache_calls X cs w) c = Some b"
  by (induction cs arbitrary: w) (simp_all add: own_entry_step)

text \<open>
  C8, as the code has it. (1) Over any run of calls of \<open>get_source_data_with_cache\<close>
  that starts with no cached value, \<open>get_source_data\<close> returns at most once for each
  class; a call of it that raises caches nothing, and the next call repeats it. (2) A
  call that returns bytes returns the same bytes when it is repeated at once, and leaves
  the state, the ghost log included, as it is. (3) A class that holds \<open>source_data\<close>
  itself returns it after any further calls, without calling \<open>get_source_data\<close>.
  (4) A class that holds no \<open>source_data\<close> itself and has a base class that does returns
  the bytes of the base class and computes none of its own: the lookup of the attribute
  goes through the base classes.
\<close>

theorem source_data_cache:
  "(source_data w0 = Map.empty \<and> gsd_log w0 = [] \<longrightarrow>
      returned_calls (cache_calls X cs w0) c \<le> 1) \<and>
   (get_source_data_with_cache X c w = (Inr b, w1) \<longrightarrow>
      get_source_data_with_cache X c w1 = (Inr b, w1)) \<and>
   (source_data w2 c = Some b2 \<longrightarrow>
      get_source_data_with_cache X c (cache_calls X ds w2) = (Inr b2, cache_calls X ds w2)) \<and>
   (source_data w3 d = None \<and> lookup_attr (source_data w3) (ancestors X d) = Some b3 \<longrightarrow>
      get_source_data_with_cache X d w3 = (Inr b3, w3))"
proof (intro conjI impI)
  assume "source_data w0 = Map.empty \<and> gsd_log w0 = []"
  then have "cache_inv w0" by (simp add: cache_inv_def returned_calls_def)
  then have "cache_inv (cache_calls X cs w0)" by (rule cache_inv_calls)
  then have "returned_calls (cache_calls X cs w0) c
               \<le> (if source_data (cache_calls X cs w0) c = None then 0 else 1)"
    unfolding cache_inv_def by blast
  then show "returned_calls (cache_calls X cs w0) c \<le> 1" by (simp split: if_splits)
next
  assume "get_source_data_with_cache X c w = (Inr b, w1)"
  then show "get_source_data_with_cache X c w1 = (Inr b, w1)" by (rule cache_second_call)
next
  assume "source_data w2 c = Some b2"
  then have "source_data (cache_calls X ds w2) c = Some b2" by (rule own_entry_calls)
  then show "get_source_data_with_cache X c (cache_calls X ds w2) = (Inr b2, cache_calls X ds w2)"
    by (simp add: get_source_data_with_cache_def)
next
  assume "source_data w3 d = None \<and> lookup_attr (source_data w3) (ancestors X d) = Some b3"
  then show "get_source_data_with_cache X d w3 = (Inr b3, w3)" by (simp add: cache_inherited)
qed

text \<open>
  C8 as stated fails for a handler class that derives from another one: after
  \<open>SampleDeltaPatch\<close> has cached its base asset, its subclass \<open>PalDeltaPatch\<close>, whose own
  \<open>get_source_data\<close> would return another asset, returns the asset of
  \<open>SampleDeltaPatch\<close>, and its \<open>get_source_data\<close> is never called.
\<close>

theorem inherited_cache_counterexample:
  "get_source_data sample_ext ''PalDeltaPatch'' sample_world = Inr ''pal base rom'' \<and>
   get_source_data_with_cache sample_ext ''PalDeltaPatch''
       (cache_calls sample_ext [''SampleDeltaPatch''] sample_world)
     = (Inr ''base rom'', cache_calls sample_ext [''SampleDeltaPatch''] sample_world) \<and>
   gsd_log (cache_calls sample_ext [''SampleDeltaPatch'', ''PalDeltaPatch''] sample_world)
     = [(''SampleDeltaPatch'', True)]"
  by (simp add: get_source_data_with_cache_def sample_ext_def sample_world_def sample_bases_def)

theorem source_data_cache_witness:
  "source_data sample_world = Map.empty \<and> gsd_log sample_world = [] \<and>
   returned_calls
     (cache_calls sample_ext [''SampleDeltaPatch'', ''PalDeltaPatch'', ''SampleDeltaPatch'']
        sample_world) ''SampleDeltaPatch'' \<le> 1 \<and>
   get_source_data_with_cache sample_ext ''SampleDeltaPatch'' sample_world
     = (Inr ''base rom'', cache_calls sample_ext [''SampleDeltaPatch''] sample_world) \<and>
   get_source_data_with_cache sample_ext ''SampleDeltaPatch''
       (cache_calls sample_ext [''SampleDeltaPatch''] sample_world)
     = (Inr ''base rom'', cache_calls sample_ext [''SampleDeltaPatch''] sample_world) \<and>
   source_data (cache_calls sample_ext [''SampleDeltaPatch''] sample_world) ''SampleDeltaPatch''
     = Some ''base rom'' \<and>
   get_source_data_with_cache sample_ext ''SampleDeltaPatch''
       (cache_calls sample_ext [''PalDeltaPatch'', ''APDeltaPatch'']
          (cache_calls sample_ext [''SampleDeltaPatch''] sample_world))
     = (Inr ''base rom'',
        cache_calls sample_ext [''PalDeltaPatch'', ''APDeltaPatch'']
          (cache_calls sample_ext [''SampleDeltaPatch''] sample_world)) \<and>
   source_data (cache_calls sample_ext [''SampleDeltaPatch''] sample_world) ''PalDeltaPatch''
     = None \<and>
   get_source_data_with_cache sample_ext ''PalDeltaPatch''
       (cache_calls sample_ext [''SampleDeltaPatch''] sample_world)
     = (Inr ''base rom'', cache_calls sample_ext [''SampleDeltaPatch''] sample_world)"
  using source_data_cache
    [where ?w0.0 = sample_world and X = sample_ext
       and cs = "[''SampleDeltaPatch'', ''PalDeltaPatch'', ''SampleDeltaPatch'']"
       and c = "''SampleDeltaPatch''" and w = sample_world and b = "''base rom''"
       and ?w1.0 = "cache_calls sample_ext [''SampleDeltaPatch''] sample_world"
       and ?w2.0 = "cache_calls sample_ext [''SampleDeltaPatch''] sample_world"
       and ?b2.0 = "''base rom''" and ds = "[''PalDeltaPatch'', ''APDeltaPatch'']"
       and ?w3.0 = "cache_calls sample_ext [''SampleDeltaPatch''] sample_world"
       and d = "''PalDeltaPatch''" and ?b3.0 = "''base rom''"]
  by (simp add: get_source_data_with_cache_def sample_ext_def sample_world_def sample_bases_def)

section \<open>The bound path\<close>

lemma APContainer_read_contents_path:
  "path (snd (APContainer_read_contents X obj zf)) = path obj"
  by (simp add: APContainer_read_contents_def split: sum.splits option.splits prod.splits)

lemma read_contents_path: "path (snd (read_contents X obj zf)) = path obj"
proof (cases "kind obj = DeltaPatch")
  case True
  have "path (snd (APDeltaPatch_read_contents X obj zf)) = path obj"
    using APContainer_read_contents_path [of X obj zf]
    by (auto simp add: APDeltaPatch_read_contents_def split: sum.splits prod.splits)
  with True show ?thesis by (simp add: read_contents_def)
next
  case False
  then show ?thesis
    by (simp add: read_contents_def APContainer_read_contents_path split: kind.splits)
qed

lemma read_path_of_contents:
  "snd (case read_contents X obj zf of (Inl e, obj2) \<Rightarrow> (Inl (invalid_data e), obj2)
                                    | (Inr u, obj2) \<Rightarrow> (Inr (), obj2))
   = snd (read_contents X obj zf)"
  by (simp split: prod.splits sum.splits)

lemma zip_open_read_filename:
  "zip_open_read w t = Inr zf \<Longrightarrow>
     filename zf = (case t of FPath p \<Rightarrow> Some p | FStream i \<Rightarrow> sname (streams w i))"
  by (auto simp add: zip_open_read_def open_content_def
        split: file_arg.splits option.splits fcontent.splits)

lemma zip_open_write_filename:
  "zip_open_write w t = Inr (zf, w1) \<Longrightarrow>
     filename zf = (case t of FPath p \<Rightarrow> Some p | FStream i \<Rightarrow> sname (streams w i))"
  by (auto simp add: zip_open_write_def new_archive_def split: file_arg.splits option.splits)

lemma zip_target_falsy:
  "\<not> truthy_file file \<Longrightarrow> zip_target obj file = Some t \<Longrightarrow>
     \<exists>p. t = FPath p \<and> path obj = Some p"
  by (auto simp add: zip_target_def split: option.splits if_splits)

lemma write_path:
  assumes "zip_target obj file = Some t" "zip_open_write w t = Inr (zf, w1)"
  shows "path (fst (snd (APContainer_write X obj file w)))
           = (if truthy_file file then filename zf else path obj)"
  using assms by (simp add: APContainer_write_def Let_def split: prod.splits)

lemma read_path:
  assumes "zip_target obj file = Some t" "zip_open_read w t = Inr zf"
  shows "path (snd (APContainer_read X obj file w))
           = (if truthy_file file then filename zf else path obj)"
  using assms read_contents_path [of X "obj\<lparr>path := filename zf\<rparr>" zf]
    read_contents_path [of X obj zf]
  by (simp add: APContainer_read_def Let_def read_path_of_contents)

text \<open>
  C10. When \<open>write\<close> or \<open>read\<close> is called with a \<open>file\<close> argument and the archive
  opens, the bound path of the instance is afterwards the filename of the opened archive,
  whatever path the instance was constructed with and whether or not the rest of the
  call raises: the path string for a path, the \<open>name\<close> attribute of the stream for a
  stream, which is \<open>None\<close> for an in-memory buffer. (An empty path string counts as no
  argument; the archive opened is then the bound path itself.) Called with no argument,
  both leave the bound path as it is, in every outcome.
\<close>

theorem bound_path_follows_file:
  "(file \<noteq> None \<and> zip_target obj file = Some t \<and> zip_open_write w t = Inr (zf, w1) \<longrightarrow>
      path (fst (snd (APContainer_write X obj file w))) = filename zf
      \<and> filename zf = (case t of FPath p \<Rightarrow> Some p | FStream i \<Rightarrow> sname (streams w i))) \<and>
   (file' \<noteq> None \<and> zip_target obj' file' = Some t' \<and> zip_open_read w' t' = Inr zf' \<longrightarrow>
      path (snd (APContainer_read X obj' file' w')) = filename zf'
      \<and> filename zf' = (case t' of FPath p \<Rightarrow> Some p | FStream i \<Rightarrow> sname (streams w' i))) \<and>
   path (fst (snd (APContainer_write X obj None w))) = path obj \<and>
   path (snd (APContainer_read X obj' None w')) = path obj'"
proof (intro conjI impI)
  assume a: "file \<noteq> None \<and> zip_target obj file = Some t \<and> zip_open_write w t = Inr (zf, w1)"
  then have fn: "filename zf = (case t of FPath p \<Rightarrow> Some p | FStream i \<Rightarrow> sname (streams w i))"
    by (simp add: zip_open_write_filename)
  show "path (fst (snd (APContainer_write X obj file w))) = filename zf"
  proof (cases "truthy_file file")
    case True
    with a show ?thesis by (simp add: write_path)
  next
    case False
    with a obtain p where "t = FPath p" "path obj = Some p"
      using zip_target_falsy by blast
    with a fn False show ?thesis by (simp add: write_path)
  qed
  from fn show "filename zf = (case t of FPath p \<Rightarrow> Some p | FStream i \<Rightarrow> sname (streams w i))" .
next
  assume a: "file' \<noteq> None \<and> zip_target obj' file' = Some t' \<and> zip_open_read w' t' = Inr zf'"
  then have fn: "filename zf' = (case t' of FPath p \<Rightarrow> Some p | FStream i \<Rightarrow> sname (streams w' i))"
    by (simp add: zip_open_read_filename)
  show "path (snd (APContainer_read X obj' file' w')) = filename zf'"
  proof (cases "truthy_file file'")
    case True
    with a show ?thesis by (simp add: read_path)
  next
    case False
    with a obtain p where "t' = FPath p" "path obj' = Some p"
      using zip_target_falsy by blast
    with a fn False show ?thesis by (simp add: read_path)
  qed
  from fn show "filename zf' = (case t' of FPath p \<Rightarrow> Some p | FStream i \<Rightarrow> sname (streams w' i))" .
next
  show "path (fst (snd (APContainer_write X obj None w))) = path obj"
    by (simp add: APContainer_write_def Let_def truthy_file_def
          split: option.splits sum.splits prod.splits)
next
  show "path (snd (APContainer_read X obj' None w')) = path obj'"
    using read_contents_path [of X obj']
    by (simp add: APContainer_read_def Let_def truthy_file_def read_path_of_contents
          split: option.splits sum.splits)
qed

section \<open>Writing and reading back\<close>

lemma zip_read_writestr:
  "zip_read (writestr zf name data ct) name' =
     (if name' = name then Inr data else zip_read zf name')"
  by (simp add: zip_read_def writestr_def)

lemma zip_read_entries:
  "entries zf = entries zf' \<Longrightarrow> zip_read zf name = zip_read zf' name"
  by (simp add: zip_read_def)

lemma get_manifest_path [simp]: "get_manifest (obj\<lparr>path := x\<rparr>) = get_manifest obj"
proof -
  have c: "APContainer_get_manifest (obj\<lparr>path := x\<rparr>) = APContainer_get_manifest obj"
    by (simp add: APContainer_get_manifest_def)
  then have p: "APPatch_get_manifest (obj\<lparr>path := x\<rparr>) = APPatch_get_manifest obj"
    by (simp add: APPatch_get_manifest_def)
  then have d: "APDeltaPatch_get_manifest (obj\<lparr>path := x\<rparr>) = APDeltaPatch_get_manifest obj"
    by (simp add: APDeltaPatch_get_manifest_def split: option.splits)
  show ?thesis by (simp add: get_manifest_def c p d split: kind.splits)
qed

lemma map_of_container_manifest:
  "map_of (APContainer_get_manifest obj) =
     [''server'' \<mapsto> server obj, ''player'' \<mapsto> player obj,
      ''player_name'' \<mapsto> player_name obj, ''game'' \<mapsto> opt_str (game obj),
      ''compatible_version'' \<mapsto> PInt 5, ''version'' \<mapsto> PInt container_version]"
  by (auto simp add: APContainer_get_manifest_def fun_eq_iff)

lemma manifest_fields:
  assumes "get_manifest obj = Inr m"
  shows "map_of m ''player'' = Some (player obj)"
    and "map_of m ''server'' = Some (server obj)"
    and "map_of m ''player_name'' = Some (player_name obj)"
    and "map_of m ''compatible_version'' = Some (PInt 5)
         \<or> map_of m ''compatible_version'' = Some (PInt 6)"
  using assms
  by (auto simp add: get_manifest_def APDeltaPatch_get_manifest_def APPatch_get_manifest_def
        update_conv' map_of_container_manifest split: kind.splits option.splits)

lemma APContainer_write_contents_entry:
  assumes "APContainer_write_contents X obj zf = (Inr (), zf1)"
  shows "\<exists>m s. get_manifest obj = Inr m \<and> json_dumps X m = Some s \<and>
               zf1 = writestr zf ''archipelago.json'' s None"
  using assms
  by (auto simp add: APContainer_write_contents_def split: sum.splits option.splits)

lemma write_contents_manifest_entry:
  assumes "write_contents X obj zf w = (Inr (), zf1, w1)"
  shows "\<exists>m s. get_manifest obj = Inr m \<and> json_dumps X m = Some s \<and>
               zip_read zf1 ''archipelago.json'' = Inr s"
proof (cases "kind obj = DeltaPatch")
  case True
  with assms have "APDeltaPatch_write_contents X obj zf w = (Inr (), zf1, w1)"
    by (simp add: write_contents_def)
  then obtain zf0 d where a: "APContainer_write_contents X obj zf = (Inr (), zf0)"
    and b: "zf1 = writestr zf0 ''delta.bsdiff4'' d (Some ZIP_STORED)"
    by (auto simp add: APDeltaPatch_write_contents_def split: sum.splits prod.splits)
  from APContainer_write_contents_entry [OF a] b show ?thesis
    by (auto simp add: zip_read_writestr)
next
  case False
  with assms have "APContainer_write_contents X obj zf = (Inr (), zf1)"
    by (auto simp add: write_contents_def split: kind.splits prod.splits)
  from APContainer_write_contents_entry [OF this] show ?thesis
    by (auto simp add: zip_read_writestr)
qed

lemma gsdc_streams:
  "streams (snd (get_source_data_with_cache X c w)) = streams w"
  by (simp add: get_source_data_with_cache_def split: option.splits sum.splits)

lemma write_contents_streams:
  "streams (snd (snd (write_contents X obj zf w))) = streams w"
  using gsdc_streams [of X "cls obj" w]
  by (auto simp add: write_contents_def APDeltaPatch_write_contents_def
        split: kind.splits sum.splits prod.splits)

lemma zip_open_write_streams:
  "zip_open_write w t = Inr (zf, w1) \<Longrightarrow> streams w1 = streams w"
  by (auto simp add: zip_open_write_def split: file_arg.splits option.splits)

lemma reopen_written:
  "zip_open_read (zip_close_write t zf w) t =
     Inr \<lparr> filename = (case t of FPath p \<Rightarrow> Some p | FStream i \<Rightarrow> sname (streams w i)),
           compression = ZIP_STORED, compresslevel = None, entries = entries zf \<rparr>"
  by (simp add: zip_open_read_def zip_close_write_def open_content_def split: file_arg.splits)

lemma read_contents_ok:
  assumes "kind r \<noteq> DeltaPatch"
    and "zip_read zf ''archipelago.json'' = Inr s"
    and "json_load X s = Inr (PDict m)"
    and "map_of m ''compatible_version'' = Some (PInt cv)" "cv \<le> version r"
    and "map_of m ''player'' = Some pl" "map_of m ''server'' = Some sv"
    and "map_of m ''player_name'' = Some pn"
  shows "read_contents X r zf = (Inr (), r\<lparr>player := pl, server := sv, player_name := pn\<rparr>)"
  using assms
  by (simp add: read_contents_def APContainer_read_contents_def py_getitem_def
        dict_getitem_def as_number_def split: kind.splits)

lemma map_of_json_manifest:
  "map_of (json_manifest m) k = map_option json_value (map_of m k)"
  by (induction m) (simp_all add: json_manifest_def)

text \<open>
  C3, as the code has it. A container of any kind is written, with or without a \<open>file\<close>
  argument, and the write returns; a container that is no delta patch and has the
  current version, such as a fresh \<open>APContainer\<close>, then reads the same path or stream,
  named by its argument or by its bound path. When the JSON codec decodes what it
  encoded as Python's does, the read returns, and the reader holds the player, the
  server and the player name of the writer as the codec returns them: equal to the
  originals when they are values that JSON keeps, which \<open>None\<close>, integers and strings
  (the declared types of the three fields) are, and with lists in the place of tuples
  otherwise.
\<close>

theorem container_round_trip:
  assumes target: "zip_target obj file = Some t" "zip_target r file' = Some t"
    and written: "APContainer_write X obj file w = (Inr (), obj1, w1)"
    and codec: "\<And>m s. get_manifest obj = Inr m \<Longrightarrow> json_dumps X m = Some s \<Longrightarrow>
                  json_load X s = Inr (PDict (json_manifest m))"
    and reader: "kind r \<noteq> DeltaPatch" "6 \<le> version r"
  shows "APContainer_read X r file' w1 =
           (Inr (),
            r\<lparr>path := (if truthy_file file'
                         then (case t of FPath p \<Rightarrow> Some p | FStream i \<Rightarrow> sname (streams w i))
                         else path r),
               player := json_value (player obj), server := json_value (server obj),
               player_name := json_value (player_name obj)\<rparr>) \<and>
         (json_value (player obj) = player obj \<and> json_value (server obj) = server obj \<and>
          json_value (player_name obj) = player_name obj \<longrightarrow>
            player (snd (APContainer_read X r file' w1)) = player obj \<and>
            server (snd (APContainer_read X r file' w1)) = server obj \<and>
            player_name (snd (APContainer_read X r file' w1)) = player_name obj) \<and>
         json_value PNone = PNone \<and> json_value (PInt i) = PInt i \<and>
         json_value (PStr s') = PStr s'"
proof -
  from written target obtain zf w0 zf1 w2 where
    opened: "zip_open_write w t = Inr (zf, w0)"
    and obj1: "obj1 = (if truthy_file file then obj\<lparr>path := filename zf\<rparr> else obj)"
    and contents: "write_contents X obj1 zf w0 = (Inr (), zf1, w2)"
    and closed: "w1 = zip_close_write t zf1 w2"
    by (auto simp add: APContainer_write_def Let_def split: sum.splits prod.splits)
  from obj1 have "get_manifest obj1 = get_manifest obj" by simp
  with write_contents_manifest_entry [OF contents] obtain m s where
    m: "get_manifest obj = Inr m" and s: "json_dumps X m = Some s"
    and entry: "zip_read zf1 ''archipelago.json'' = Inr s"
    by auto
  from codec [OF m s] have loaded: "json_load X s = Inr (PDict (json_manifest m))" .
  let ?fn = "case t of FPath p \<Rightarrow> Some p | FStream i \<Rightarrow> sname (streams w i)"
  let ?zf = "\<lparr> filename = ?fn, compression = ZIP_STORED, compresslevel = None,
               entries = entries zf1 \<rparr>"
  have "streams w2 = streams w0"
    using write_contents_streams [of X obj1 zf w0] contents by simp
  with zip_open_write_streams [OF opened] have "streams w2 = streams w" by simp
  with closed have reopened: "zip_open_read w1 t = Inr ?zf"
    by (simp add: reopen_written split: file_arg.splits)
  have entry': "zip_read ?zf ''archipelago.json'' = Inr s"
    using entry zip_read_entries [of ?zf zf1] by simp
  from manifest_fields(4) [OF m] obtain cv where
    cv: "map_of (json_manifest m) ''compatible_version'' = Some (PInt cv)" "cv \<le> 6"
    by (auto simp add: map_of_json_manifest)
  have fields: "map_of (json_manifest m) ''player'' = Some (json_value (player obj))"
    "map_of (json_manifest m) ''server'' = Some (json_value (server obj))"
    "map_of (json_manifest m) ''player_name'' = Some (json_value (player_name obj))"
    using manifest_fields(1-3) [OF m] by (simp_all add: map_of_json_manifest)
  let ?r = "if truthy_file file' then r\<lparr>path := filename ?zf\<rparr> else r"
  from reader cv have k: "kind ?r \<noteq> DeltaPatch" and cv': "cv \<le> version ?r" by simp_all
  from read_contents_ok [OF k entry' loaded cv(1) cv' fields]
  have "read_contents X ?r ?zf =
          (Inr (), ?r\<lparr>player := json_value (player obj), server := json_value (server obj),
                      player_name := json_value (player_name obj)\<rparr>)" .
  with target(2) reopened have result: "APContainer_read X r file' w1 =
           (Inr (),
            r\<lparr>path := (if truthy_file file' then ?fn else path r),
               player := json_value (player obj), server := json_value (server obj),
               player_name := json_value (player_name obj)\<rparr>)"
    by (simp add: APContainer_read_def Let_def)
  then show ?thesis by simp
qed

section \<open>The version gate\<close>

lemma read_contents_too_new:
  assumes "zip_read zf ''archipelago.json'' = Inr f"
    and "json_load X f = Inr (PDict m)"
    and "map_of m ''compatible_version'' = Some (PInt cv)"
    and "version obj < cv"
  shows "read_contents X obj zf =
           (Inl (Raised Exception (Some (too_new_message (str_int cv) (version obj)))), obj)"
proof -
  have "APContainer_read_contents X obj zf =
          (Inl (Raised Exception (Some (too_new_message (str_int cv) (version obj)))), obj)"
    using assms
    by (simp add: APContainer_read_contents_def py_getitem_def dict_getitem_def as_number_def)
  then show ?thesis
    by (simp add: read_contents_def APDeltaPatch_read_contents_def split: kind.splits)
qed

text \<open>
  C1. The archive that \<open>read\<close> opens holds a manifest whose \<open>compatible_version\<close> is
  an integer above the version of the reader. Then \<open>read_contents\<close> raises the exception
  that names both versions, \<open>read\<close> raises it again as InvalidDataError with the same
  text in front of its hint, and \<open>player\<close>, \<open>player_name\<close> and \<open>server\<close> are as they
  were: only the bound path has followed the \<open>file\<close> argument.
\<close>

theorem version_gate:
  assumes "zip_target obj file = Some t"
    and "zip_open_read w t = Inr zf"
    and "zip_read zf ''archipelago.json'' = Inr f"
    and "json_load X f = Inr (PDict m)"
    and "map_of m ''compatible_version'' = Some (PInt cv)"
    and "version obj < cv"
  shows "APContainer_read X obj file w =
           (Inl (Raised InvalidDataError
                   (Some (''File (version: '' @ str_int cv
                          @ '') too new for this handler (version: '' @ str_int (version obj)
                          @ '') - This might be the incorrect world version for this file''))),
            if truthy_file file then obj\<lparr>path := filename zf\<rparr> else obj) \<and>
         player (snd (APContainer_read X obj file w)) = player obj \<and>
         player_name (snd (APContainer_read X obj file w)) = player_name obj \<and>
         server (snd (APContainer_read X obj file w)) = server obj"
proof -
  have failed: "read_contents X ob zf =
          (Inl (Raised Exception (Some (too_new_message (str_int cv) (version obj)))), ob)"
    if "version ob = version obj" for ob
    using read_contents_too_new [OF assms(3-5), of ob] assms(6) that by simp
  show ?thesis
  proof (cases "truthy_file file")
    case True
    with assms(1,2) failed [of "obj\<lparr>path := filename zf\<rparr>"] show ?thesis
      by (simp add: APContainer_read_def Let_def invalid_data_def too_new_message_def)
  next
    case False
    with assms(1,2) failed [of obj] show ?thesis
      by (simp add: APContainer_read_def Let_def invalid_data_def too_new_message_def)
  qed
qed

section \<open>The delta entry\<close>

lemma APContainer_write_contents_level:
  "compresslevel (snd (APContainer_write_contents X obj zf)) = compresslevel zf"
  by (simp add: APContainer_write_contents_def writestr_def split: sum.splits option.splits)

text \<open>
  C6, as the code has it. When \<open>write_contents\<close> of a delta patch returns, the last
  entry of the archive is named \<open>delta.bsdiff4\<close>, holds the diff of the cached base asset
  and the bytes of \<open>patched_path\<close>, and is stored uncompressed; and when \<open>read_contents\<close>
  of a delta patch returns, \<open>delta\<close> is the content of the entry of that same name.
\<close>

theorem delta_entry_name:
  "(APDeltaPatch_write_contents X obj zf w = (Inr (), zf1, w1) \<longrightarrow>
      (\<exists>base target.
         get_source_data_with_cache X (cls obj) w = (Inr base, w1) \<and>
         read_file X w1 (patched_path obj) = Inr target \<and>
         last (entries zf1) =
           \<lparr> zname = ''delta.bsdiff4'', zdata = bsdiff4_diff X base target,
             zcompress = ZIP_STORED, zlevel = compresslevel zf \<rparr> \<and>
         zip_read zf1 ''delta.bsdiff4'' = Inr (bsdiff4_diff X base target))) \<and>
   (APDeltaPatch_read_contents X obj' zf' = (Inr (), obj1') \<longrightarrow>
      (\<exists>d. zip_read zf' ''delta.bsdiff4'' = Inr d \<and> delta obj1' = Some d))"
proof (intro conjI impI)
  assume a: "APDeltaPatch_write_contents X obj zf w = (Inr (), zf1, w1)"
  then obtain zf0 base target where
    m: "APContainer_write_contents X obj zf = (Inr (), zf0)"
    and c: "get_source_data_with_cache X (cls obj) w = (Inr base, w1)"
    and r: "read_file X w1 (patched_path obj) = Inr target"
    and z: "zf1 = writestr zf0 ''delta.bsdiff4'' (bsdiff4_diff X base target) (Some ZIP_STORED)"
    by (auto simp add: APDeltaPatch_write_contents_def split: sum.splits prod.splits)
  from m APContainer_write_contents_level [of X obj zf]
  have l: "compresslevel zf0 = compresslevel zf" by simp
  from z l have "last (entries zf1) =
           \<lparr> zname = ''delta.bsdiff4'', zdata = bsdiff4_diff X base target,
             zcompress = ZIP_STORED, zlevel = compresslevel zf \<rparr>"
    by (simp add: writestr_def)
  moreover from z have "zip_read zf1 ''delta.bsdiff4'' = Inr (bsdiff4_diff X base target)"
    by (simp add: zip_read_writestr)
  ultimately show "\<exists>base target.
         get_source_data_with_cache X (cls obj) w = (Inr base, w1) \<and>
         read_file X w1 (patched_path obj) = Inr target \<and>
         last (entries zf1) =
           \<lparr> zname = ''delta.bsdiff4'', zdata = bsdiff4_diff X base target,
             zcompress = ZIP_STORED, zlevel = compresslevel zf \<rparr> \<and>
         zip_read zf1 ''delta.bsdiff4'' = Inr (bsdiff4_diff X base target)"
    using c r by blast
next
  assume "APDeltaPatch_read_contents X obj' zf' = (Inr (), obj1')"
  then show "\<exists>d. zip_read zf' ''delta.bsdiff4'' = Inr d \<and> delta obj1' = Some d"
    by (auto simp add: APDeltaPatch_read_contents_def split: sum.splits prod.splits)
qed

section \<open>Applying a patch\<close>

lemma APContainer_read_contents_cls:
  "cls (snd (APContainer_read_contents X obj zf)) = cls obj"
  by (simp add: APContainer_read_contents_def split: sum.splits option.splits prod.splits)

lemma read_contents_cls: "cls (snd (read_contents X obj zf)) = cls obj"
proof (cases "kind obj = DeltaPatch")
  case True
  have "cls (snd (APDeltaPatch_read_contents X obj zf)) = cls obj"
    using APContainer_read_contents_cls [of X obj zf]
    by (auto simp add: APDeltaPatch_read_contents_def split: sum.splits prod.splits)
  with True show ?thesis by (simp add: read_contents_def)
next
  case False
  then show ?thesis
    by (simp add: read_contents_def APContainer_read_contents_cls split: kind.splits)
qed

lemma read_cls: "cls (snd (APContainer_read X obj file w)) = cls obj"
  using read_contents_cls [of X "obj\<lparr>path := p\<rparr>" for p] read_contents_cls [of X obj]
  by (simp add: APContainer_read_def Let_def read_path_of_contents
        split: option.splits sum.splits)

lemma apply_delta_result:
  assumes "apply_delta X obj target w = (Inr (), obj1, w1)"
  shows "obj1 = obj \<and>
         (\<exists>base result.
            fst (get_source_data_with_cache X (cls obj) w) = Inr base \<and>
            bsdiff4_patch X base (delta obj) = Inr result \<and>
            files w1 target = Some (Plain result))"
  using assms
  by (auto simp add: apply_delta_def write_file_def split: sum.splits prod.splits option.splits)

text \<open>
  C2, as the code has it. \<open>patch\<close> performs no read when a delta that is not empty is
  loaded: it is then \<open>apply_delta\<close> on the object as it is. When \<open>delta\<close> is \<open>None\<close> or
  the empty byte string it first performs \<open>read()\<close>; a read that raises ends the call
  with nothing written, a read that returns is followed by \<open>apply_delta\<close> on the object
  that was read. Whenever \<open>patch\<close> returns, the file at \<open>target\<close> holds exactly what
  \<open>bsdiff4.patch\<close> made of the cached base asset and the delta the object now has.
\<close>

theorem patch_reads_then_applies:
  "(\<not> delta_missing obj \<longrightarrow>
      APDeltaPatch_patch X obj target w = apply_delta X obj target w) \<and>
   (delta_missing obj2 \<and> APContainer_read X obj2 None w2 = (Inr (), obj3) \<longrightarrow>
      APDeltaPatch_patch X obj2 target2 w2 = apply_delta X obj3 target2 w2) \<and>
   (delta_missing obj4 \<and> APContainer_read X obj4 None w4 = (Inl e, obj5) \<longrightarrow>
      APDeltaPatch_patch X obj4 target4 w4 = (Inl e, obj5, w4)) \<and>
   (APDeltaPatch_patch X obj6 target6 w6 = (Inr (), obj7, w7) \<longrightarrow>
      (\<exists>base result.
         fst (get_source_data_with_cache X (cls obj6) w6) = Inr base \<and>
         bsdiff4_patch X base (delta obj7) = Inr result \<and>
         files w7 target6 = Some (Plain result)))"
proof (intro conjI impI)
  assume "\<not> delta_missing obj"
  then show "APDeltaPatch_patch X obj target w = apply_delta X obj target w"
    by (simp add: APDeltaPatch_patch_def)
next
  assume "delta_missing obj2 \<and> APContainer_read X obj2 None w2 = (Inr (), obj3)"
  then show "APDeltaPatch_patch X obj2 target2 w2 = apply_delta X obj3 target2 w2"
    by (simp add: APDeltaPatch_patch_def)
next
  assume "delta_missing obj4 \<and> APContainer_read X obj4 None w4 = (Inl e, obj5)"
  then show "APDeltaPatch_patch X obj4 target4 w4 = (Inl e, obj5, w4)"
    by (simp add: APDeltaPatch_patch_def)
next
  assume a: "APDeltaPatch_patch X obj6 target6 w6 = (Inr (), obj7, w7)"
  show "\<exists>base result.
         fst (get_source_data_with_cache X (cls obj6) w6) = Inr base \<and>
         bsdiff4_patch X base (delta obj7) = Inr result \<and>
         files w7 target6 = Some (Plain result)"
  proof (cases "delta_missing obj6")
    case False
    with a have "apply_delta X obj6 target6 w6 = (Inr (), obj7, w7)"
      by (simp add: APDeltaPatch_patch_def)
    from apply_delta_result [OF this] show ?thesis by auto
  next
    case True
    with a obtain obj1 where r: "APContainer_read X obj6 None w6 = (Inr (), obj1)"
      and ap: "apply_delta X obj1 target6 w6 = (Inr (), obj7, w7)"
      by (auto simp add: APDeltaPatch_patch_def split: sum.splits prod.splits)
    from r read_cls [of X obj6 None w6] have "cls obj1 = cls obj6" by simp
    with apply_delta_result [OF ap] show ?thesis by auto
  qed
qed

text \<open>
  C2 as stated fails for a delta that is loaded and empty: \<open>not self.delta\<close> holds for
  it, and \<open>patch\<close> performs a read, here one that fails for want of a path.
\<close>

theorem empty_delta_counterexample:
  "delta (sample_delta\<lparr>path := None, delta := Some []\<rparr>) = Some [] \<and>
   APDeltaPatch_patch sample_ext (sample_delta\<lparr>path := None, delta := Some []\<rparr>)
       ''result.sfc'' sample_world
   = (Inl (Raised FileNotFoundError
             (Some ''Cannot read SampleDeltaPatch due to no path provided.'')),
      sample_delta\<lparr>path := None, delta := Some []\<rparr>, sample_world)"
  by (simp add: APDeltaPatch_patch_def delta_missing_def APContainer_read_def zip_target_def
        truthy_file_def sample_delta_def APDeltaPatch_init_def APContainer_init_def)

section \<open>The theorems at the sample objects\<close>

lemmas sample_defs =
  sample_ext_def sample_world_def sample_container_def sample_pair_container_def
  sample_pair_json_def sample_delta_def sample_dumps_def
  sample_load_def sample_patch_def sample_bases_def sample_container_json_def
  sample_delta_json_def sample_newer_json_def sample_newer_manifest_def
  APContainer_init_def APDeltaPatch_init_def container_version_def

lemmas model_defs =
  APContainer_write_def APContainer_read_def write_contents_def read_contents_def
  APContainer_write_contents_def APContainer_read_contents_def
  APDeltaPatch_write_contents_def APDeltaPatch_read_contents_def
  get_manifest_def APContainer_get_manifest_def APPatch_get_manifest_def
  APDeltaPatch_get_manifest_def zip_target_def truthy_file_def zip_open_write_def
  zip_open_read_def open_content_def zip_close_write_def new_archive_def writestr_def
  zip_read_def read_file_def write_file_def get_source_data_with_cache_def
  py_getitem_def dict_getitem_def as_number_def invalid_data_def too_new_message_def
  opt_str_def compression_method_def compression_level_def ZIP_DEFLATED_def ZIP_STORED_def
  str_int_def str_nat.simps Let_def

theorem version_gate_witness:
  "version sample_container < 7 \<and>
   APContainer_read sample_ext sample_container (Some (FPath ''newer.zip'')) sample_world =
     (Inl (Raised InvalidDataError
             (Some (''File (version: 7) too new for this handler (version: 6)''
                    @ '' - This might be the incorrect world version for this file''))),
      sample_container\<lparr>path := Some ''newer.zip''\<rparr>) \<and>
   player (snd (APContainer_read sample_ext sample_container (Some (FPath ''newer.zip''))
                  sample_world)) = PInt 1"
  using version_gate
    [where obj = sample_container and ?file = "Some (FPath ''newer.zip'')"
       and t = "FPath ''newer.zip''" and w = sample_world and X = sample_ext
       and zf = "\<lparr> filename = Some ''newer.zip'', compression = ZIP_STORED,
                    compresslevel = None,
                    entries = [\<lparr> zname = ''archipelago.json'', zdata = sample_newer_json,
                                 zcompress = ZIP_DEFLATED, zlevel = Some 9 \<rparr>] \<rparr>"
       and f = sample_newer_json and m = sample_newer_manifest and cv = 7]
  by (simp add: sample_defs model_defs)

theorem container_round_trip_witness:
  "fst (APContainer_write sample_ext sample_container (Some (FPath ''out.zip'')) sample_world)
     = Inr () \<and>
   APContainer_read sample_ext (APContainer_init None PNone (PStr []) (PStr []))
       (Some (FPath ''out.zip''))
       (snd (snd (APContainer_write sample_ext sample_container (Some (FPath ''out.zip''))
                    sample_world)))
     = (Inr (),
        APContainer_init (Some ''out.zip'') (PInt 1) (PStr ''Alice'') (PStr ''localhost:38281'')) \<and>
   fst (APContainer_write sample_ext sample_container None sample_world) = Inr () \<and>
   APContainer_read sample_ext (APContainer_init (Some ''bound.zip'') PNone (PStr []) (PStr []))
       None (snd (snd (APContainer_write sample_ext sample_container None sample_world)))
     = (Inr (),
        APContainer_init (Some ''bound.zip'') (PInt 1) (PStr ''Alice'')
          (PStr ''localhost:38281''))"
  using container_round_trip
    [where ?file = "Some (FPath ''out.zip'')" and t = "FPath ''out.zip''"
       and file' = "Some (FPath ''out.zip'')" and X = sample_ext and obj = sample_container
       and w = sample_world
       and ?obj1.0 = "fst (snd (APContainer_write sample_ext sample_container
                                  (Some (FPath ''out.zip'')) sample_world))"
       and ?w1.0 = "snd (snd (APContainer_write sample_ext sample_container
                                (Some (FPath ''out.zip'')) sample_world))"
       and r = "APContainer_init None PNone (PStr []) (PStr [])"]
    container_round_trip
    [where ?file = None and t = "FPath ''bound.zip''" and file' = None and X = sample_ext
       and obj = sample_container and w = sample_world
       and ?obj1.0 = "fst (snd (APContainer_write sample_ext sample_container None
                                  sample_world))"
       and ?w1.0 = "snd (snd (APContainer_write sample_ext sample_container None
                                sample_world))"
       and r = "APContainer_init (Some ''bound.zip'') PNone (PStr []) (PStr [])"]
  by (simp add: sample_defs model_defs json_manifest_def)

text \<open>
  C3 as stated fails for a value that JSON does not keep: a container whose player name
  is a pair of strings is written and read back, both calls return, and the reader
  holds a list of the two strings where the writer holds a tuple.
\<close>

theorem tuple_round_trip_counterexample:
  "fst (APContainer_write sample_ext sample_pair_container (Some (FPath ''out.zip''))
          sample_world) = Inr () \<and>
   fst (APContainer_read sample_ext (APContainer_init None PNone (PStr []) (PStr []))
          (Some (FPath ''out.zip''))
          (snd (snd (APContainer_write sample_ext sample_pair_container
                       (Some (FPath ''out.zip'')) sample_world)))) = Inr () \<and>
   player_name sample_pair_container = PTuple [PStr ''Alice'', PStr ''Bob''] \<and>
   player_name
     (snd (APContainer_read sample_ext (APContainer_init None PNone (PStr []) (PStr []))
             (Some (FPath ''out.zip''))
             (snd (snd (APContainer_write sample_ext sample_pair_container
                          (Some (FPath ''out.zip'')) sample_world)))))
     = PList [PStr ''Alice'', PStr ''Bob''] \<and>
   player_name
     (snd (APContainer_read sample_ext (APContainer_init None PNone (PStr []) (PStr []))
             (Some (FPath ''out.zip''))
             (snd (snd (APContainer_write sample_ext sample_pair_container
                          (Some (FPath ''out.zip'')) sample_world)))))
     \<noteq> player_name sample_pair_container"
  by (simp add: sample_defs model_defs json_manifest_def)

theorem bound_path_follows_file_witness:
  "path sample_container = Some ''bound.zip'' \<and>
   path (fst (snd (APContainer_write sample_ext sample_container (Some (FPath ''other.zip''))
                     sample_world))) = Some ''other.zip'' \<and>
   path (fst (snd (APContainer_write sample_ext sample_container (Some (FStream 0))
                     sample_world))) = None \<and>
   path (snd (APContainer_read sample_ext sample_container (Some (FPath ''newer.zip''))
                sample_world)) = Some ''newer.zip'' \<and>
   path (fst (snd (APContainer_write sample_ext sample_container None sample_world)))
     = Some ''bound.zip'' \<and>
   path (snd (APContainer_read sample_ext sample_container None sample_world))
     = Some ''bound.zip''"
  using bound_path_follows_file
    [where ?file = "Some (FPath ''other.zip'')" and obj = sample_container
       and t = "FPath ''other.zip''" and w = sample_world
       and zf = "new_archive (Some ''other.zip'')"
       and ?w1.0 = "sample_world\<lparr>files := (files sample_world)(''other.zip'' \<mapsto> Plain [])\<rparr>"
       and X = sample_ext
       and file' = "Some (FPath ''newer.zip'')" and obj' = sample_container
       and t' = "FPath ''newer.zip''" and w' = sample_world
       and zf' = "\<lparr> filename = Some ''newer.zip'', compression = ZIP_STORED,
                     compresslevel = None,
                     entries = [\<lparr> zname = ''archipelago.json'', zdata = sample_newer_json,
                                  zcompress = ZIP_DEFLATED, zlevel = Some 9 \<rparr>] \<rparr>"]
    bound_path_follows_file
    [where ?file = "Some (FStream 0)" and obj = sample_container
       and t = "FStream 0" and w = sample_world
       and zf = "new_archive None" and ?w1.0 = sample_world and X = sample_ext
       and file' = "Some (FPath ''newer.zip'')" and obj' = sample_container
       and t' = "FPath ''newer.zip''" and w' = sample_world
       and zf' = "\<lparr> filename = Some ''newer.zip'', compression = ZIP_STORED,
                     compresslevel = None,
                     entries = [\<lparr> zname = ''archipelago.json'', zdata = sample_newer_json,
                                  zcompress = ZIP_DEFLATED, zlevel = Some 9 \<rparr>] \<rparr>"]
  by (simp add: sample_defs zip_target_def truthy_file_def zip_open_write_def
        zip_open_read_def open_content_def new_archive_def)

theorem delta_entry_name_witness:
  "fst (APDeltaPatch_write_contents sample_ext sample_delta (new_archive None) sample_world)
     = Inr () \<and>
   last (entries (fst (snd (APDeltaPatch_write_contents sample_ext sample_delta
                              (new_archive None) sample_world)))) =
     \<lparr> zname = ''delta.bsdiff4'', zdata = ''BSDIFF40patched rom'',
       zcompress = ZIP_STORED, zlevel = Some 9 \<rparr> \<and>
   fst (APDeltaPatch_read_contents sample_ext sample_delta
          (fst (snd (APDeltaPatch_write_contents sample_ext sample_delta
                       (new_archive None) sample_world)))) = Inr () \<and>
   delta (snd (APDeltaPatch_read_contents sample_ext sample_delta
                 (fst (snd (APDeltaPatch_write_contents sample_ext sample_delta
                              (new_archive None) sample_world)))))
     = Some ''BSDIFF40patched rom''"
  using delta_entry_name
    [where X = sample_ext and obj = sample_delta and zf = "new_archive None"
       and w = sample_world
       and ?zf1.0 = "fst (snd (APDeltaPatch_write_contents sample_ext sample_delta
                                 (new_archive None) sample_world))"
       and ?w1.0 = "snd (snd (APDeltaPatch_write_contents sample_ext sample_delta
                                (new_archive None) sample_world))"
       and obj' = sample_delta
       and zf' = "fst (snd (APDeltaPatch_write_contents sample_ext sample_delta
                              (new_archive None) sample_world))"
       and obj1' = "snd (APDeltaPatch_read_contents sample_ext sample_delta
                          (fst (snd (APDeltaPatch_write_contents sample_ext sample_delta
                                       (new_archive None) sample_world))))"]
  by (simp add: sample_defs model_defs)

text \<open>
  C6 as stated fails on the name: the archive that a delta patch writes has the entries
  \<open>archipelago.json\<close> and \<open>delta.bsdiff4\<close>, and none named \<open>delta.bin\<close>.
\<close>

theorem delta_bin_counterexample:
  "fst (APDeltaPatch_write_contents sample_ext sample_delta (new_archive None) sample_world)
     = Inr () \<and>
   map zname (entries (fst (snd (APDeltaPatch_write_contents sample_ext sample_delta
                                   (new_archive None) sample_world))))
     = [''archipelago.json'', ''delta.bsdiff4''] \<and>
   zip_read (fst (snd (APDeltaPatch_write_contents sample_ext sample_delta
                         (new_archive None) sample_world))) ''delta.bin''
     = Inl (Raised KeyError
              (Some (''There is no item named '' @ quoted ''delta.bin'' @ '' in the archive'')))"
  by (simp add: sample_defs model_defs)

theorem patch_reads_then_applies_witness:
  "\<not> delta_missing (sample_delta\<lparr>delta := Some ''BSDIFF40direct''\<rparr>) \<and>
   files (snd (snd (APDeltaPatch_patch sample_ext
                      (sample_delta\<lparr>delta := Some ''BSDIFF40direct''\<rparr>) ''result.sfc''
                      sample_world))) ''result.sfc'' = Some (Plain ''direct'') \<and>
   delta_missing sample_delta \<and>
   APContainer_read sample_ext sample_delta None sample_world
     = (Inr (), sample_delta\<lparr>delta := Some ''BSDIFF40patched rom''\<rparr>) \<and>
   fst (APDeltaPatch_patch sample_ext sample_delta ''result.sfc'' sample_world) = Inr () \<and>
   files (snd (snd (APDeltaPatch_patch sample_ext sample_delta ''result.sfc'' sample_world)))
     ''result.sfc'' = Some (Plain ''patched rom'') \<and>
   delta_missing (sample_delta\<lparr>path := Some ''missing.apsample''\<rparr>) \<and>
   APDeltaPatch_patch sample_ext (sample_delta\<lparr>path := Some ''missing.apsample''\<rparr>)
       ''result.sfc'' sample_world
     = (Inl (Raised FileNotFoundError None),
        sample_delta\<lparr>path := Some ''missing.apsample''\<rparr>, sample_world)"
  using patch_reads_then_applies
    [where X = sample_ext and obj = "sample_delta\<lparr>delta := Some ''BSDIFF40direct''\<rparr>"
       and target = "''result.sfc''" and w = sample_world
       and ?obj2.0 = sample_delta and ?w2.0 = sample_world
       and ?obj3.0 = "sample_delta\<lparr>delta := Some ''BSDIFF40patched rom''\<rparr>"
       and ?target2.0 = "''result.sfc''"
       and ?obj4.0 = "sample_delta\<lparr>path := Some ''missing.apsample''\<rparr>"
       and ?w4.0 = sample_world and e = "Raised FileNotFoundError None"
       and ?obj5.0 = "sample_delta\<lparr>path := Some ''missing.apsample''\<rparr>"
       and ?target4.0 = "''result.sfc''"
       and ?obj6.0 = sample_delta and ?target6.0 = "''result.sfc''" and ?w6.0 = sample_world
       and ?obj7.0 = "fst (snd (APDeltaPatch_patch sample_ext sample_delta ''result.sfc''
                                  sample_world))"
       and ?w7.0 = "snd (snd (APDeltaPatch_patch sample_ext sample_delta ''result.sfc''
                                sample_world))"]
  by (simp add: sample_defs model_defs APDeltaPatch_patch_def apply_delta_def delta_missing_def)

end
